theory Spec2Isabelle
  imports Complex_Main
begin

section \<open>Data model\<close>

text \<open>
  Shallow embedding of \<^verbatim>\<open>oxasl/corrections.py\<close> and of the parts of
  \<^verbatim>\<open>oxasl/reg.py\<close> it calls.  Numeric image data and matrices are numpy arrays of
  floats in the source; here their entries are idealised as reals.
\<close>

record ndarray =
  shape :: "nat list"
  voxels :: "real list"

type_synonym matrix = "real list list"

text \<open>An \<^verbatim>\<open>fsl.data.image.Image\<close> (or \<^verbatim>\<open>AslImage\<close>, which adds \<^verbatim>\<open>iaf\<close>).\<close>

record image =
  name :: string
  data :: ndarray
  header :: string
  iaf :: string

text \<open>Python exceptions that the modelled code can raise or let through.\<close>

datatype error =
    ValueError string
  | KeyError string
  | TypeError
  | AttributeError string
  | IndexError
  | LinAlgError
  | ToolError string

text \<open>Items of a report page (\<^verbatim>\<open>ReportPage.heading/text/matrix\<close>).\<close>

datatype page_item = Heading string nat | Text string | Matrix "matrix option"

text \<open>
  Calls to the external collaborators, recorded in order: the call-counting
  instrumentation of the tools.  The record is carried in the state next to the
  attributes of the workspace (field \<open>calls\<close>); no source function reads it.
\<close>

datatype call =
    Topup "image option" string
  | Mcflirt "image option" "image option"
  | EpiReg "image option"
  | Convertwarp "image option" "image option list" "matrix option"
  | Applywarp "image option" "image option" "image option" "matrix option" string "nat option"
  | Applyxfm "image option" "image option" "matrix option" string "nat option"
  | Flirt "image option" "image option" string
  | StrucInit
  | Segment
  | Brain "image option" real

text \<open>The \<^verbatim>\<open>reg\<close> and \<^verbatim>\<open>structural\<close> sub-workspaces.\<close>

record reg_ws =
  r_regfrom :: "image option"
  r_regto :: "image option"
  r_asl2struc :: "matrix option"
  r_struc2asl :: "matrix option"

record structural_ws =
  s_struc :: "image option"
  s_brain :: "image option"
  s_wm_seg :: "image option"

text \<open>
  Modelled from the spec: the \<^verbatim>\<open>Workspace\<close> class is not part of the two source
  files.  Following section 4.1, it is a store of named attributes in which an attribute
  that was never written reads as absent (\<open>None\<close>), with a set of stage names marked
  done (\<^verbatim>\<open>isdone\<close>/\<^verbatim>\<open>done\<close>), a log and a report.  The attributes are the
  ones the two source files read, write or document as written.  A sub-workspace
  (\<^verbatim>\<open>wsp.sub(name)\<close>) is a scope of its own, absent until it is created.
  The fields \<open>asl2struc_attr\<close> and \<open>struc2asl_attr\<close> are the top-level attributes
  \<^verbatim>\<open>wsp.asl2struc\<close> and \<^verbatim>\<open>wsp.struc2asl\<close>; the fields of the sub-workspaces carry
  the prefixes \<open>r_\<close> and \<open>s_\<close>.
\<close>

record workspace =
  done_stages :: "string set"
  log_lines :: "string list"
  report :: "(string \<times> page_item list) list"
  calls :: "call list"
  reg :: "reg_ws option"
  structural :: "structural_ws option"
  pedir :: "string option"
  echospacing :: "real option"
  inweight :: "real option"
  nofmapreg :: "bool option"
  flirtsch :: "string option"
  dof :: "nat option"
  senscorr_off :: "bool option"
  senscorr_auto :: "bool option"
  calib :: "image option"
  cblip :: "image option"
  cref :: "image option"
  calib_blipped :: "image option"
  cblip_warp :: "image option"
  calib_orig :: "image option"
  cref_orig :: "image option"
  cblip_orig :: "image option"
  cref_cblip :: "image option"
  asldata :: "image option"
  asldata_orig :: "image option"
  asldata_mean :: "image option"
  asldata_mc_mats :: "matrix option"
  asl2calib :: "matrix option"
  calib2asl :: "matrix option"
  fmap :: "image option"
  fmapmag :: "image option"
  fmapmagbrain :: "image option"
  fmap_warp :: "image option"
  fmap_warp_struc :: "image option"
  fmap_asl2struc :: "matrix option"
  fmap_struc2asl :: "matrix option"
  gdc_warp :: "image option"
  total_warp :: "image option"
  jacobian :: "image option"
  pwi :: "image option"
  struc :: "image option"
  struc_brain :: "image option"
  wm_seg_struc :: "image option"
  asl2struc_attr :: "matrix option"
  struc2asl_attr :: "matrix option"
  regfrom :: "image option"
  sensitivity :: "image option"
  isen :: "image option"
  bias :: "image option"

section \<open>Python control flow: state, exceptions, attribute access\<close>

text \<open>
  A Python function of the workspace is a state transformer that either returns a value
  or raises; the workspace reached is kept in both cases, since what was written before
  an exception stays written.
\<close>

type_synonym 'a py = "workspace \<Rightarrow> (error + 'a) \<times> workspace"

definition py_return :: "'a \<Rightarrow> 'a py" where
  "py_return x = (\<lambda>w. (Inr x, w))"

definition py_raise :: "error \<Rightarrow> 'a py" where
  "py_raise e = (\<lambda>w. (Inl e, w))"

definition py_bind :: "'a py \<Rightarrow> ('a \<Rightarrow> 'b py) \<Rightarrow> 'b py" where
  "py_bind m f = (\<lambda>w. case m w of (Inl e, w') \<Rightarrow> (Inl e, w') | (Inr x, w') \<Rightarrow> f x w')"

definition py_seq :: "unit py \<Rightarrow> 'b py \<Rightarrow> 'b py" where
  "py_seq m k = py_bind m (\<lambda>_. k)"

definition py_when :: "bool \<Rightarrow> unit py \<Rightarrow> unit py" where
  "py_when b m = (if b then m else py_return ())"

text \<open>\<^verbatim>\<open>wsp.attr\<close>: reading never fails, an unset attribute is \<open>None\<close>.\<close>

definition rd :: "(workspace \<Rightarrow> 'a) \<Rightarrow> 'a py" where
  "rd f = (\<lambda>w. (Inr (f w), w))"

text \<open>\<^verbatim>\<open>wsp.attr = v\<close>.\<close>

definition wr :: "(workspace \<Rightarrow> workspace) \<Rightarrow> unit py" where
  "wr u = (\<lambda>w. (Inr (), u w))"

text \<open>\<^verbatim>\<open>obj.attr\<close> on a value that may be \<open>None\<close>: AttributeError on \<open>None\<close>.\<close>

definition attr_of :: "'o option \<Rightarrow> string \<Rightarrow> ('o \<Rightarrow> 'a) \<Rightarrow> 'a py" where
  "attr_of obj nm sel =
     (case obj of None \<Rightarrow> py_raise (AttributeError nm) | Some x \<Rightarrow> py_return (sel x))"

text \<open>The value or the exception of a computation that does not touch the workspace.\<close>

definition lift :: "error + 'a \<Rightarrow> 'a py" where
  "lift r = (\<lambda>w. (r, w))"

text \<open>A call of an external tool: the call is recorded, then its result or exception.\<close>

definition external :: "call \<Rightarrow> error + 'a \<Rightarrow> 'a py" where
  "external c r = (\<lambda>w. (r, w\<lparr>calls := calls w @ [c]\<rparr>))"

text \<open>
  A call into another module of the package that works on the workspace
  (\<^verbatim>\<open>struc.init\<close>, \<^verbatim>\<open>struc.segment\<close>).  When the module raises, what it had
  written before is not tracked.
\<close>

definition module_call :: "call \<Rightarrow> (workspace \<Rightarrow> error + workspace) \<Rightarrow> unit py" where
  "module_call c f = (\<lambda>w. case f (w\<lparr>calls := calls w @ [c]\<rparr>) of
       Inl e \<Rightarrow> (Inl e, w\<lparr>calls := calls w @ [c]\<rparr>)
     | Inr w' \<Rightarrow> (Inr (), w'))"

definition log_write :: "string \<Rightarrow> unit py" where
  "log_write s = wr (\<lambda>w. w\<lparr>log_lines := log_lines w @ [s]\<rparr>)"

definition isdone :: "string \<Rightarrow> bool py" where
  "isdone stage = rd (\<lambda>w. stage \<in> done_stages w)"

text \<open>\<^verbatim>\<open>wsp.done(stage)\<close>.\<close>

definition mark_done :: "string \<Rightarrow> unit py" where
  "mark_done stage = wr (\<lambda>w. w\<lparr>done_stages := insert stage (done_stages w)\<rparr>)"

text \<open>\<^verbatim>\<open>wsp.ifnone(attr, default)\<close>.\<close>

definition ifnone :: "'a option \<Rightarrow> 'a \<Rightarrow> 'a" where
  "ifnone v d = (case v of None \<Rightarrow> d | Some x \<Rightarrow> x)"

text \<open>Truth value of an option flag: \<open>None\<close> and \<open>False\<close> are both false.\<close>

definition truthy :: "bool option \<Rightarrow> bool" where
  "truthy v = (v = Some True)"

section \<open>String formatting\<close>

definition digit_char :: "nat \<Rightarrow> char" where
  "digit_char d = ''0123456789'' ! d"

fun str_nat :: "nat \<Rightarrow> string" where
  "str_nat n = (if n < 10 then [digit_char n] else str_nat (n div 10) @ [digit_char (n mod 10)])"

declare str_nat.simps [simp del]

definition zero_pad :: "nat \<Rightarrow> string \<Rightarrow> string" where
  "zero_pad width s = replicate (width - length s) (CHR ''0'') @ s"

text \<open>\<^verbatim>\<open>"%04i" % n\<close> and \<^verbatim>\<open>"%i" % n\<close> for a non-negative integer.\<close>

definition fmt_04i :: "nat \<Rightarrow> string" where
  "fmt_04i n = zero_pad 4 (str_nat n)"

definition fmt_i :: "nat \<Rightarrow> string" where
  "fmt_i n = str_nat n"

definition round_half_even :: "real \<Rightarrow> nat" where
  "round_half_even r =
     (let f = nat \<lfloor>r\<rfloor>; d = r - real f
      in if d < 1 / 2 then f else if 1 / 2 < d then f + 1 else if even f then f else f + 1)"

text \<open>
  \<^verbatim>\<open>"%f" % x\<close>: six digits after the point, the exact value rounded to nearest,
  ties to even.
\<close>

definition fmt_f :: "real \<Rightarrow> string" where
  "fmt_f x =
     (let scaled = round_half_even (\<bar>x\<bar> * 1000000)
      in (if x < 0 then [CHR ''-''] else []) @ str_nat (scaled div 1000000) @ [CHR ''.'']
           @ zero_pad 6 (str_nat (scaled mod 1000000)))"

text \<open>
  \<^verbatim>\<open>template % args\<close> for templates whose only conversion is \<^verbatim>\<open>%f\<close> (all the
  templates of \<^verbatim>\<open>topup_params\<close>).  An argument that is \<open>None\<close>, a missing or a
  surplus argument is a TypeError, as in Python.
\<close>

fun py_format_f :: "string \<Rightarrow> real option list \<Rightarrow> error + string" where
  "py_format_f [] [] = Inr []"
| "py_format_f [] (a # as) = Inl TypeError"
| "py_format_f [c] as = (if c = CHR ''%'' then Inl (ValueError ''incomplete format'')
       else case py_format_f [] as of Inl e \<Rightarrow> Inl e | Inr r \<Rightarrow> Inr (c # r))"
| "py_format_f (c # d # cs) as =
     (if c = CHR ''%'' then
        (if d = CHR ''f'' then
           (case as of
              [] \<Rightarrow> Inl TypeError
            | None # _ \<Rightarrow> Inl TypeError
            | Some x # as' \<Rightarrow>
                (case py_format_f cs as' of Inl e \<Rightarrow> Inl e | Inr r \<Rightarrow> Inr (fmt_f x @ r)))
         else Inl (ValueError ''unsupported format character''))
      else case py_format_f (d # cs) as of Inl e \<Rightarrow> Inl e | Inr r \<Rightarrow> Inr (c # r))"

section \<open>External collaborators\<close>

text \<open>Keyword arguments and results of the tools that take many of them.\<close>

record flirt_opts =
  fo_schedule :: string
  fo_init :: "matrix option"
  fo_inweight :: "real option"
  fo_dof :: "nat option"

record epi_reg_args =
  er_epi :: "image option"
  er_t1 :: "image option"
  er_t1brain :: "image option"
  er_wmseg :: "image option"
  er_inweight :: "real option"
  er_init :: "matrix option"
  er_fmap :: "image option"
  er_fmapmag :: "image option"
  er_fmapmagbrain :: "image option"
  er_pedir :: "string option"
  er_echospacing :: "real option"
  er_nofmapreg :: "bool option"

record epi_reg_result =
  out_warp :: "image option"
  out_mat :: "matrix option"
  out_img :: "image option"

text \<open>
  The numerical tools (FSL wrappers, numpy, \<^verbatim>\<open>fslpy\<close> images) and the modules
  \<^verbatim>\<open>oxasl.struc\<close>, \<^verbatim>\<open>oxasl.brain\<close> and \<^verbatim>\<open>oxasl.wrappers\<close> are not part of the two
  source files.  They are parameters of the model: each is an arbitrary function of its
  arguments that returns a result or raises.
\<close>

record env =
  np_stack :: "ndarray \<Rightarrow> ndarray \<Rightarrow> error + ndarray"
  np_divide :: "ndarray \<Rightarrow> ndarray \<Rightarrow> error + ndarray"
  np_reciprocal :: "ndarray \<Rightarrow> error + ndarray"
  np_multiply :: "ndarray \<Rightarrow> image \<Rightarrow> error + ndarray"
  linalg_inv :: "matrix option \<Rightarrow> error + matrix"
  str_matrix :: "matrix option \<Rightarrow> string"
  Image_new :: "ndarray \<Rightarrow> string option \<Rightarrow> image"
  asl_mean :: "image \<Rightarrow> image"
  derived :: "image \<Rightarrow> ndarray \<Rightarrow> image"
  fsldir :: "string option"
  fsl_topup :: "image option \<Rightarrow> string \<Rightarrow> error + image"
  fsl_mcflirt :: "image option \<Rightarrow> image option \<Rightarrow> error + (string \<rightharpoonup> matrix)"
  fsl_convertwarp :: "image option \<Rightarrow> image option list \<Rightarrow> matrix option \<Rightarrow> error + image"
  fsl_applywarp ::
    "image option \<Rightarrow> image option \<Rightarrow> image option \<Rightarrow> matrix option \<Rightarrow> string \<Rightarrow> nat option
       \<Rightarrow> error + image"
  fsl_applyxfm ::
    "image option \<Rightarrow> image option \<Rightarrow> matrix option \<Rightarrow> string \<Rightarrow> nat option \<Rightarrow> error + image"
  fsl_flirt :: "image option \<Rightarrow> image option \<Rightarrow> flirt_opts \<Rightarrow> error + (image \<times> matrix)"
  epi_reg :: "epi_reg_args \<Rightarrow> error + epi_reg_result"
  struc_init :: "workspace \<Rightarrow> error + workspace"
  struc_segment :: "workspace \<Rightarrow> error + workspace"
  brain_brain :: "image option \<Rightarrow> real \<Rightarrow> error + image"

section \<open>Matrices\<close>

text \<open>\<^verbatim>\<open>np.dot\<close> of two 2-D arrays: the matrix product, ValueError when shapes do not fit.\<close>

definition np_dot :: "matrix \<Rightarrow> matrix \<Rightarrow> error + matrix" where
  "np_dot a b =
     (if list_all (\<lambda>row. length row = length b) a
         \<and> list_all (\<lambda>row. length row = length (hd b)) b
      then Inr (map (\<lambda>row. map (\<lambda>col. sum_list (map2 (*) row col)) (transpose b)) a)
      else Inl (ValueError ''shapes not aligned''))"

text \<open>\<^verbatim>\<open>np.concatenate(mats, axis=0)\<close>: the rows of all matrices, in order.\<close>

definition np_concatenate :: "matrix list \<Rightarrow> error + matrix" where
  "np_concatenate ms =
     (if ms = [] then Inl (ValueError ''need at least one array to concatenate'')
      else if list_all (\<lambda>m. list_all (\<lambda>row. length row = length (hd (hd ms))) m) ms
      then Inr (concat ms)
      else Inl (ValueError ''all the input array dimensions must match''))"

text \<open>\<^verbatim>\<open>np.dot(a, b)\<close> where \<open>b\<close> is an attribute read from the workspace.\<close>

definition np_dot_arg :: "matrix \<Rightarrow> matrix option \<Rightarrow> error + matrix" where
  "np_dot_arg a b = (case b of None \<Rightarrow> Inl TypeError | Some m \<Rightarrow> np_dot a m)"

definition identity4 :: matrix where
  "identity4 = [[1, 0, 0, 0], [0, 1, 0, 0], [0, 0, 1, 0], [0, 0, 0, 1]]"

text \<open>\<^verbatim>\<open>xs[i]\<close> for a non-negative index.\<close>

definition py_index :: "'a list \<Rightarrow> nat \<Rightarrow> error + 'a" where
  "py_index xs i = (if i < length xs then Inr (xs ! i) else Inl IndexError)"

text \<open>\<^verbatim>\<open>d[key]\<close>.\<close>

definition py_getitem :: "(string \<rightharpoonup> 'a) \<Rightarrow> string \<Rightarrow> error + 'a" where
  "py_getitem d k = (case d k of None \<Rightarrow> Inl (KeyError k) | Some v \<Rightarrow> Inr v)"

text \<open>A list comprehension whose element expression may raise: stops at the first error.\<close>

fun map_raise :: "('a \<Rightarrow> error + 'b) \<Rightarrow> 'a list \<Rightarrow> error + 'b list" where
  "map_raise f [] = Inr []"
| "map_raise f (x # xs) =
     (case f x of
        Inl e \<Rightarrow> Inl e
      | Inr y \<Rightarrow> (case map_raise f xs of Inl e \<Rightarrow> Inl e | Inr ys \<Rightarrow> Inr (y # ys)))"

section \<open>corrections.py: get_cblip_correction\<close>

definition topup_params :: "string \<rightharpoonup> string" where
  "topup_params =
     [ ''x''  \<mapsto> '' 1  0  0 %f\<newline>-1  0  0 %f'',
       ''-x'' \<mapsto> ''-1  0  0 %f\<newline> 1  0  0 %f'',
       ''y''  \<mapsto> '' 0  1  0 %f\<newline> 0 -1  0 %f'',
       ''-y'' \<mapsto> '' 0 -1  0 %f\<newline> 0  1  0 %f'',
       ''z''  \<mapsto> '' 0  0  1 %f\<newline> 0  0 -1 %f'',
       ''-z'' \<mapsto> '' 0  0 -1 %f\<newline> 0  0  1 %f'' ]"

text \<open>
  \<^verbatim>\<open>params = topup_params[wsp.pedir] % (wsp.echospacing, wsp.echospacing)\<close>;
  a \<^verbatim>\<open>pedir\<close> that is \<open>None\<close> or not in the table is a KeyError.
\<close>

definition topup_datain :: "string option \<Rightarrow> real option \<Rightarrow> error + string" where
  "topup_datain pe es =
     (case pe of
        None \<Rightarrow> Inl (KeyError ''None'')
      | Some k \<Rightarrow>
          (case py_getitem topup_params k of
             Inl e \<Rightarrow> Inl e
           | Inr template \<Rightarrow> py_format_f template [es, es]))"

definition get_cblip_correction :: "env \<Rightarrow> unit py" where
  "get_cblip_correction env =
     py_bind (isdone ''get_cblip_correction'') (\<lambda>already.
     if already then py_return () else
     py_seq (log_write ''Distortion Correction using TOPUP\<newline>'') (
     py_bind (rd pedir) (\<lambda>pe.
     py_bind (rd echospacing) (\<lambda>es.
     py_bind (lift (topup_datain pe es)) (\<lambda>params.
     py_bind (rd calib) (\<lambda>cal.
     py_bind (attr_of cal ''data'' data) (\<lambda>cal_data.
     py_bind (rd cblip) (\<lambda>cb.
     py_bind (attr_of cb ''data'' data) (\<lambda>cb_data.
     py_bind (lift (np_stack env cal_data cb_data)) (\<lambda>stacked.
     py_bind (attr_of cal ''header'' header) (\<lambda>hdr.
     py_seq (wr (calib_blipped_update (\<lambda>_. Some (Image_new env stacked (Some hdr))))) (
     py_bind (rd calib_blipped) (\<lambda>imain.
     py_bind (external (Topup imain params) (fsl_topup env imain params)) (\<lambda>topup_result.
     mark_done ''get_cblip_correction''))))))))))))))"

section \<open>reg.py\<close>

definition empty_reg :: reg_ws where
  "empty_reg = \<lparr>r_regfrom = None, r_regto = None, r_asl2struc = None, r_struc2asl = None\<rparr>"

text \<open>\<^verbatim>\<open>wsp.reg.attr = v\<close>: AttributeError when there is no \<^verbatim>\<open>reg\<close> sub-workspace.\<close>

definition set_reg :: "(reg_ws \<Rightarrow> reg_ws) \<Rightarrow> unit py" where
  "set_reg u = (\<lambda>w. case reg w of
       None \<Rightarrow> (Inl (AttributeError ''reg''), w)
     | Some r \<Rightarrow> (Inr (), w\<lparr>reg := Some (u r)\<rparr>))"

text \<open>\<^verbatim>\<open>wsp.reg.attr\<close> and \<^verbatim>\<open>wsp.structural.attr\<close>.\<close>

definition rd_reg :: "string \<Rightarrow> (reg_ws \<Rightarrow> 'a) \<Rightarrow> 'a py" where
  "rd_reg nm sel = py_bind (rd reg) (\<lambda>r. attr_of r nm sel)"

definition rd_structural :: "string \<Rightarrow> (structural_ws \<Rightarrow> 'a) \<Rightarrow> 'a py" where
  "rd_structural nm sel = py_bind (rd structural) (\<lambda>s. attr_of s nm sel)"

text \<open>Create the registration sub-workspace if not already there.\<close>

definition init :: "unit py" where
  "init = py_bind (rd reg) (\<lambda>r. py_when (r = None) (wr (reg_update (\<lambda>_. Some empty_reg))))"

definition os_path_join2 :: "string \<Rightarrow> string \<Rightarrow> string" where
  "os_path_join2 a b =
     (if b \<noteq> [] \<and> hd b = CHR ''/'' then b
      else if a = [] \<or> last a = CHR ''/'' then a @ b
      else a @ [CHR ''/''] @ b)"

definition os_path_join :: "string \<Rightarrow> string list \<Rightarrow> string" where
  "os_path_join a ps = foldl os_path_join2 a ps"

text \<open>\<^verbatim>\<open>os.environ["FSLDIR"]\<close>.\<close>

definition environ_FSLDIR :: "env \<Rightarrow> error + string" where
  "environ_FSLDIR env = (case fsldir env of None \<Rightarrow> Inl (KeyError ''FSLDIR'') | Some d \<Rightarrow> Inr d)"

definition brain_of :: "env \<Rightarrow> image option \<Rightarrow> unit py" where
  "brain_of env img =
     py_bind (external (Brain img (2 / 10)) (brain_brain env img (2 / 10))) (\<lambda>b.
     set_reg (r_regfrom_update (\<lambda>_. Some b)))"

definition get_regfrom :: "env \<Rightarrow> unit py" where
  "get_regfrom env =
     py_seq init (
     py_bind (rd_reg ''regfrom'' r_regfrom) (\<lambda>current.
     if current = None then
       py_seq (log_write ''\<newline>Getting image to use for ASL->structural registration)\<newline>'') (
       py_bind (rd regfrom) (\<lambda>user.
       if user \<noteq> None then
         py_seq (log_write '' - Registration reference image supplied by user\<newline>'') (
         set_reg (r_regfrom_update (\<lambda>_. user)))
       else
         py_bind (rd asldata) (\<lambda>asl.
         py_bind (attr_of asl ''iaf'' iaf) (\<lambda>i.
         if i = ''tc'' \<or> i = ''ct'' then
           py_seq (log_write '' - Registration reference is mean ASL signal (brain extracted)\<newline>'') (
           py_bind (attr_of asl ''mean'' (asl_mean env)) (\<lambda>m. brain_of env (Some m)))
         else
           py_bind (rd calib) (\<lambda>cal.
           if cal \<noteq> None then
             py_seq (log_write '' - Registration reference is calibration image (brain extracted)\<newline>'') (
             brain_of env cal)
           else
             py_seq (log_write '' - Registration reference is mean ASL image (brain extracted)\<newline>'') (
             py_bind (attr_of asl ''mean'' (asl_mean env)) (\<lambda>m. brain_of env (Some m))))))))
     else py_return ()))"

definition reg_flirt :: "env \<Rightarrow> image option \<Rightarrow> image option \<Rightarrow> matrix option \<Rightarrow> (image \<times> matrix) py" where
  "reg_flirt env img ref initial_transform =
     py_bind (attr_of img ''name'' name) (\<lambda>nm.
     py_seq (log_write ('' - Registering image: '' @ nm @ '' using FLIRT\<newline>'')) (
     py_bind (lift (environ_FSLDIR env)) (\<lambda>dir1.
     py_bind (rd inweight) (\<lambda>iw.
     let opts1 = \<lparr>fo_schedule = os_path_join dir1 [''etc'', ''flirtsch'', ''xyztrans.sch''],
                  fo_init = initial_transform, fo_inweight = iw, fo_dof = None\<rparr>
     in
     py_bind (external (Flirt img ref (fo_schedule opts1)) (fsl_flirt env img ref opts1)) (\<lambda>step1.
     py_bind (lift (environ_FSLDIR env)) (\<lambda>dir2.
     py_bind (rd flirtsch) (\<lambda>sch.
     py_bind (rd dof) (\<lambda>d.
     let opts2 = opts1\<lparr>fo_schedule := os_path_join dir2 [''etc'', ''flirtsch'', ifnone sch ''simple3D.sch''],
                       fo_init := Some (snd step1), fo_dof := Some (ifnone d 6)\<rparr>
     in
     external (Flirt img ref (fo_schedule opts2)) (fsl_flirt env img ref opts2)))))))))"

text \<open>\<^verbatim>\<open>result[key]\<close> on the dictionary a tool returns.\<close>

definition result_item :: "string \<Rightarrow> 'a option \<Rightarrow> 'a py" where
  "result_item k v = (case v of None \<Rightarrow> py_raise (KeyError k) | Some x \<Rightarrow> py_return x)"

definition reg_bbr :: "env \<Rightarrow> (image \<times> matrix) py" where
  "reg_bbr env =
     py_seq (module_call Segment (struc_segment env)) (
     py_seq (log_write ''  - BBR registration using epi_reg\<newline>'') (
     py_bind (rd_reg ''regfrom'' r_regfrom) (\<lambda>epi.
     py_bind (rd_structural ''struc'' s_struc) (\<lambda>t1.
     py_bind (rd_structural ''brain'' s_brain) (\<lambda>t1brain.
     py_bind (rd_structural ''wm_seg'' s_wm_seg) (\<lambda>wmseg.
     py_bind (rd_reg ''asl2struc'' r_asl2struc) (\<lambda>init_mat.
     py_bind (rd inweight) (\<lambda>iw.
     let args = \<lparr>er_epi = epi, er_t1 = t1, er_t1brain = t1brain, er_wmseg = wmseg,
                 er_inweight = iw, er_init = init_mat, er_fmap = None, er_fmapmag = None,
                 er_fmapmagbrain = None, er_pedir = None, er_echospacing = None,
                 er_nofmapreg = None\<rparr>
     in
     py_bind (external (EpiReg epi) (epi_reg env args)) (\<lambda>result.
     py_bind (result_item ''out.nii.gz'' (out_img result)) (\<lambda>img.
     py_bind (result_item ''out'' (out_mat result)) (\<lambda>mat.
     py_return (img, mat))))))))))))"

definition reg_asl2struc :: "env \<Rightarrow> bool \<Rightarrow> bool \<Rightarrow> unit py" where
  "reg_asl2struc env flirt bbr =
     py_seq init (
     py_seq (module_call StrucInit (struc_init env)) (
     py_bind (rd_structural ''struc'' s_struc) (\<lambda>st.
     if st \<noteq> None then
       py_seq (get_regfrom env) (
       py_seq (log_write ''\<newline>Registering ASL data to structural data\<newline>'') (
       py_seq (py_when flirt (
         py_bind (rd_reg ''regfrom'' r_regfrom) (\<lambda>rf.
         py_bind (rd_structural ''struc'' s_struc) (\<lambda>ref.
         py_bind (rd_reg ''asl2struc'' r_asl2struc) (\<lambda>initial.
         py_bind (reg_flirt env rf ref initial) (\<lambda>res.
         py_seq (set_reg (r_regto_update (\<lambda>_. Some (fst res)))) (
         set_reg (r_asl2struc_update (\<lambda>_. Some (snd res)))))))))) (
       py_seq (py_when bbr (
         py_bind (reg_bbr env) (\<lambda>res.
         py_seq (set_reg (r_regto_update (\<lambda>_. Some (fst res)))) (
         set_reg (r_asl2struc_update (\<lambda>_. Some (snd res))))))) (
       py_bind (rd_reg ''asl2struc'' r_asl2struc) (\<lambda>a2s.
       py_bind (lift (linalg_inv env a2s)) (\<lambda>inv.
       py_seq (set_reg (r_struc2asl_update (\<lambda>_. Some inv))) (
       py_seq (log_write '' - ASL->Structural transform\<newline>'') (
       py_bind (rd_reg ''asl2struc'' r_asl2struc) (\<lambda>m1.
       py_seq (log_write (str_matrix env m1 @ ''\<newline>'')) (
       py_seq (log_write '' - Structural->ASL transform\<newline>'') (
       py_bind (rd_reg ''struc2asl'' r_struc2asl) (\<lambda>m2.
       py_seq (log_write (str_matrix env m2 @ ''\<newline>'')) (
       wr (\<lambda>w. w\<lparr>report := report w @
             [(''asl2struc'',
               [Heading ''ASL -> Structural registration'' 0, Heading ''asl2struc'' 1,
                Matrix m1, Heading ''struc2asl'' 1, Matrix m2])]\<rparr>))))))))))))))
     else py_return ())))"

text \<open>
  \<^verbatim>\<open>transform(wsp, img, trans, ref, use_applywarp, interp, paddingsize)\<close>; the workspace
  is used for logging only.
\<close>

definition transform ::
  "env \<Rightarrow> image option \<Rightarrow> matrix option \<Rightarrow> image option \<Rightarrow> bool \<Rightarrow> string \<Rightarrow> nat \<Rightarrow> image py" where
  "transform env img trans_mat ref use_applywarp interp paddingsize =
     (if trans_mat = None then
        py_raise (ValueError ''Transformation matrix not available - has registration been performed?'')
      else if \<not> use_applywarp then
        external (Applyxfm img ref trans_mat interp (Some paddingsize))
          (fsl_applyxfm env img ref trans_mat interp (Some paddingsize))
      else
        external (Applywarp img ref None trans_mat interp (Some paddingsize))
          (fsl_applywarp env img ref None trans_mat interp (Some paddingsize)))"

text \<open>Convert an image from structural to ASL space.\<close>

definition struc2asl :: "env \<Rightarrow> image \<Rightarrow> bool \<Rightarrow> string \<Rightarrow> nat \<Rightarrow> image py" where
  "struc2asl env img use_applywarp interp paddingsize =
     py_seq init (
     py_bind (rd_reg ''struc2asl'' r_struc2asl) (\<lambda>trans_mat.
     py_bind (rd_reg ''regfrom'' r_regfrom) (\<lambda>ref.
     transform env (Some img) trans_mat ref use_applywarp interp paddingsize)))"

text \<open>Convert an image from ASL to structural space.\<close>

definition asl2struc :: "env \<Rightarrow> image \<Rightarrow> bool \<Rightarrow> string \<Rightarrow> nat \<Rightarrow> image py" where
  "asl2struc env img use_applywarp interp paddingsize =
     py_seq init (
     py_bind (rd_reg ''asl2struc'' r_asl2struc) (\<lambda>trans_mat.
     py_bind (rd_structural ''struc'' s_struc) (\<lambda>ref.
     transform env (Some img) trans_mat ref use_applywarp interp paddingsize)))"

section \<open>corrections.py: get_fieldmap_correction\<close>

text \<open>The \<^verbatim>\<open>else\<close> branch: all fieldmap inputs are there.\<close>

definition fieldmap_epi_reg :: "env \<Rightarrow> unit py" where
  "fieldmap_epi_reg env =
     py_seq (reg_asl2struc env True False) (
     py_seq (module_call Segment (struc_segment env)) (
     py_seq (log_write ''\<newline>Distortion correction from fieldmap images using EPI_REG\<newline>'') (
     py_bind (rd (\<lambda>w. \<lparr>er_epi = pwi w, er_t1 = struc w, er_t1brain = struc_brain w,
                         er_wmseg = wm_seg_struc w, er_inweight = inweight w,
                         er_init = asl2struc_attr w, er_fmap = fmap w, er_fmapmag = fmapmag w,
                         er_fmapmagbrain = fmapmagbrain w, er_pedir = pedir w,
                         er_echospacing = echospacing w,
                         er_nofmapreg = Some (ifnone (nofmapreg w) False)\<rparr>)) (\<lambda>args.
     py_bind (external (EpiReg (er_epi args)) (epi_reg env args)) (\<lambda>result.
     py_bind (result_item ''out_warp'' (out_warp result)) (\<lambda>warp.
     py_seq (wr (fmap_warp_struc_update (\<lambda>_. Some warp))) (
     py_bind (result_item ''out'' (out_mat result)) (\<lambda>mat.
     py_seq (wr (fmap_asl2struc_update (\<lambda>_. Some mat))) (
     py_bind (rd fmap_asl2struc) (\<lambda>a2s.
     py_bind (lift (linalg_inv env a2s)) (\<lambda>inv.
     py_seq (wr (fmap_struc2asl_update (\<lambda>_. Some inv))) (
     py_bind (rd asldata_mean) (\<lambda>ref.
     py_bind (rd fmap_warp_struc) (\<lambda>warp1.
     py_bind (rd fmap_struc2asl) (\<lambda>postmat.
     py_bind (external (Convertwarp ref [warp1] postmat) (fsl_convertwarp env ref [warp1] postmat)) (\<lambda>out.
     wr (fmap_warp_update (\<lambda>_. Some out))))))))))))))))))"

definition get_fieldmap_correction :: "env \<Rightarrow> unit py" where
  "get_fieldmap_correction env =
     py_bind (isdone ''get_fieldmap_correction'') (\<lambda>already.
     if already then py_return () else
     py_seq (
       py_bind (rd fmap) (\<lambda>fm.
       py_bind (rd fmapmag) (\<lambda>mag.
       py_bind (rd fmapmagbrain) (\<lambda>magbrain.
       if fm = None \<or> mag = None \<or> magbrain = None then
         log_write ''\<newline>No fieldmap images for distortion correction\<newline>''
       else
         py_bind (rd pedir) (\<lambda>pe.
         py_bind (rd echospacing) (\<lambda>es.
         if pe = None \<or> es = None then
           log_write ''\<newline>WARNING: Fieldmap images supplied but pedir and echospacing required for distortion correction\<newline>''
         else fieldmap_epi_reg env)))))) (
     mark_done ''get_fieldmap_correction''))"

section \<open>corrections.py: get_motion_correction\<close>

text \<open>\<^verbatim>\<open>wsp.asldata.shape[3]\<close>.\<close>

definition nvols :: "image option \<Rightarrow> nat py" where
  "nvols img = py_bind (attr_of img ''shape'' (\<lambda>i. shape (data i))) (\<lambda>sh. lift (py_index sh 3))"

text \<open>
  \<^verbatim>\<open>[mcflirt_result["out.mat/MAT_%04i" % vol] for vol in range(n)]\<close>.
\<close>

definition mcflirt_mats :: "(string \<rightharpoonup> matrix) \<Rightarrow> nat \<Rightarrow> error + matrix list" where
  "mcflirt_mats result n =
     map_raise (\<lambda>vol. py_getitem result (''out.mat/MAT_'' @ fmt_04i vol)) [0..<n]"

text \<open>\<^verbatim>\<open>int(float(n)/2)\<close> for a volume count.\<close>

definition middle :: "nat \<Rightarrow> nat" where
  "middle n = n div 2"

text \<open>
  The two branches of the reference choice; each yields the local variables
  \<^verbatim>\<open>mats\<close> and \<^verbatim>\<open>ref_source\<close>.
\<close>

definition mc_calib_reference :: "env \<Rightarrow> (matrix list \<times> string) py" where
  "mc_calib_reference env =
     py_seq (log_write '' - Using calibration image as reference\<newline>'') (
     py_bind (rd calib) (\<lambda>cal.
     py_bind (attr_of cal ''name'' name) (\<lambda>cal_name.
     let ref_source = ''calibration image: '' @ cal_name in
     py_bind (rd asldata) (\<lambda>asl.
     py_bind (external (Mcflirt asl cal) (fsl_mcflirt env asl cal)) (\<lambda>mcflirt_result.
     py_bind (nvols asl) (\<lambda>n.
     py_bind (lift (mcflirt_mats mcflirt_result n)) (\<lambda>mats.
     py_bind (lift (py_index mats (middle (length mats)))) (\<lambda>mid.
     py_seq (wr (asl2calib_update (\<lambda>_. Some mid))) (
     py_bind (rd asl2calib) (\<lambda>a2c.
     py_bind (lift (linalg_inv env a2c)) (\<lambda>inv.
     py_seq (wr (calib2asl_update (\<lambda>_. Some inv))) (
     py_bind (rd calib2asl) (\<lambda>c2a.
     py_bind (lift (map_raise (\<lambda>mat. np_dot_arg mat c2a) mats)) (\<lambda>mats'.
     py_bind (rd asl2calib) (\<lambda>a2c'.
     py_seq (log_write (''   ASL middle volume->Calib:\<newline>'' @ str_matrix env a2c' @ ''\<newline>'')) (
     py_bind (rd calib2asl) (\<lambda>c2a'.
     py_seq (log_write (''   Calib->ASL middle volume:\<newline>'' @ str_matrix env c2a' @ ''\<newline>'')) (
     py_return (mats', ref_source)))))))))))))))))))"

definition mc_middle_reference :: "env \<Rightarrow> (matrix list \<times> string) py" where
  "mc_middle_reference env =
     py_seq (log_write '' - Using ASL data middle volume as reference\<newline>'') (
     py_bind (rd asldata) (\<lambda>asl.
     py_bind (attr_of asl ''name'' name) (\<lambda>asl_name.
     py_bind (nvols asl) (\<lambda>n0.
     let ref_source = ''ASL data '' @ asl_name @ '' middle volume: '' @ fmt_i (middle n0) in
     py_bind (external (Mcflirt asl None) (fsl_mcflirt env asl None)) (\<lambda>mcflirt_result.
     py_bind (nvols asl) (\<lambda>n.
     py_bind (lift (mcflirt_mats mcflirt_result n)) (\<lambda>mats.
     py_return (mats, ref_source))))))))"

text \<open>The report page of the motion parameters.\<close>

definition moco_page :: "string \<Rightarrow> matrix list \<Rightarrow> page_item list" where
  "moco_page ref_source mats =
     [Heading ''Motion correction'' 0, Text (''Reference volume: '' @ ref_source),
      Heading ''Motion parameters'' 1]
     @ concat (map (\<lambda>(vol, mat). [Text (''Volume '' @ fmt_i vol), Matrix (Some mat)])
                   (zip [0..<length mats] mats))"

definition get_motion_correction :: "env \<Rightarrow> unit py" where
  "get_motion_correction env =
     py_bind (isdone ''get_motion_correction'') (\<lambda>already.
     if already then py_return () else
     py_seq (log_write ''\<newline>Motion Correction\<newline>'') (
     py_bind (rd calib) (\<lambda>cal.
     py_bind (if cal \<noteq> None then mc_calib_reference env else mc_middle_reference env) (\<lambda>(mats, ref_source).
     py_bind (lift (np_concatenate mats)) (\<lambda>stacked.
     py_seq (wr (asldata_mc_mats_update (\<lambda>_. Some stacked))) (
     py_seq (wr (\<lambda>w. w\<lparr>report := report w @ [(''moco'', moco_page ref_source mats)]\<rparr>)) (
     mark_done ''get_motion_correction'')))))))"

section \<open>corrections.py: get_sensitivity_correction\<close>

definition sensitivity_from_calib :: "env \<Rightarrow> unit py" where
  "sensitivity_from_calib env =
     py_seq (log_write '' - Sensitivity image calculated from calibration reference image\<newline>'') (
     py_bind (rd calib) (\<lambda>cal.
     py_bind (attr_of cal ''data'' data) (\<lambda>cal_data.
     py_bind (rd cref) (\<lambda>cr.
     py_bind (attr_of cr ''data'' data) (\<lambda>cref_data.
     py_bind (lift (np_divide env cal_data cref_data)) (\<lambda>ratio.
     py_bind (attr_of cal ''header'' header) (\<lambda>hdr.
     wr (sensitivity_update (\<lambda>_. Some (Image_new env ratio (Some hdr)))))))))))"

definition sensitivity_from_bias :: "env \<Rightarrow> unit py" where
  "sensitivity_from_bias env =
     py_seq (module_call Segment (struc_segment env)) (
     py_seq (log_write '' - Sensitivity image calculated from bias field\<newline>'') (
     py_bind (rd bias) (\<lambda>b.
     py_bind (attr_of b ''data'' data) (\<lambda>bias_data.
     py_bind (lift (np_reciprocal env bias_data)) (\<lambda>recip.
     py_bind (attr_of b ''header'' header) (\<lambda>hdr.
     let sens = Image_new env recip (Some hdr) in
     py_seq (reg_asl2struc env True False) (
     py_bind (rd regfrom) (\<lambda>ref.
     py_bind (rd struc2asl_attr) (\<lambda>mat.
     py_bind (external (Applyxfm (Some sens) ref mat ''trilinear'' None)
                (fsl_applyxfm env (Some sens) ref mat ''trilinear'' None)) (\<lambda>out.
     wr (sensitivity_update (\<lambda>_. Some out))))))))))))"

definition get_sensitivity_correction :: "env \<Rightarrow> unit py" where
  "get_sensitivity_correction env =
     py_bind (rd sensitivity) (\<lambda>current.
     if current = None then
       py_seq (log_write ''Sensitivity correction\<newline>'') (
       py_seq (
         py_bind (rd senscorr_off) (\<lambda>off.
         if truthy off then log_write '' - Sensitivity correction disabled\<newline>''
         else
           py_bind (rd isen) (\<lambda>user.
           if user \<noteq> None then log_write '' - Sensitivity image supplied by user\<newline>''
           else
             py_bind (rd calib) (\<lambda>cal.
             py_bind (rd cref) (\<lambda>cr.
             if cal \<noteq> None \<and> cr \<noteq> None then sensitivity_from_calib env
             else
               py_bind (rd senscorr_auto) (\<lambda>auto.
               py_bind (rd bias) (\<lambda>b.
               if truthy auto \<and> b \<noteq> None then sensitivity_from_bias env
               else log_write '' - No source of sensitivity correction was found\<newline>''))))))) (
       log_write ''\<newline>''))
     else py_return ())"

section \<open>corrections.py: apply_corrections\<close>

text \<open>Apply combined warp/linear transformations to an image.\<close>

definition correct_img :: "env \<Rightarrow> image option \<Rightarrow> matrix option \<Rightarrow> image py" where
  "correct_img env img linear_mat =
     py_bind (rd asldata_mean) (\<lambda>ref.
     py_bind (rd total_warp) (\<lambda>warp.
     py_bind (external (Applywarp img ref warp linear_mat ''sinc'' (Some 1))
                (fsl_applywarp env img ref warp linear_mat ''sinc'' (Some 1))) (\<lambda>out.
     py_bind (rd jacobian) (\<lambda>jac.
     case jac of
       None \<Rightarrow> py_return out
     | Some j \<Rightarrow>
         py_seq (log_write '' - Correcting for local volume scaling using Jacobian\<newline>'') (
         py_bind (lift (np_multiply env (data out) j)) (\<lambda>scaled.
         py_return (Image_new env scaled None)))))))"

text \<open>The part of \<^verbatim>\<open>apply_corrections\<close> after the early return.\<close>

definition apply_to_calib :: "env \<Rightarrow> unit py" where
  "apply_to_calib env =
     py_bind (rd calib_orig) (\<lambda>co.
     if co \<noteq> None then
       py_seq (log_write '' - Applying corrections to calibration data\<newline>'') (
       py_bind (rd calib2asl) (\<lambda>c2a.
       py_bind (correct_img env co c2a) (\<lambda>c.
       py_seq (wr (calib_update (\<lambda>_. Some c))) (
       py_seq (
         py_bind (rd cref_orig) (\<lambda>cro.
         py_when (cro \<noteq> None) (
           py_bind (rd calib2asl) (\<lambda>c2a1.
           py_bind (correct_img env cro c2a1) (\<lambda>c1.
           wr (cref_update (\<lambda>_. Some c1))))))) (
         py_bind (rd cblip_orig) (\<lambda>cbo.
         py_when (cbo \<noteq> None) (
           py_bind (rd cref_cblip) (\<lambda>src.
           py_bind (rd calib2asl) (\<lambda>c2a2.
           py_bind (correct_img env src c2a2) (\<lambda>c2.
           wr (cblip_update (\<lambda>_. Some c2))))))))))))
     else py_return ())"

definition apply_corrections :: "env \<Rightarrow> unit py" where
  "apply_corrections env =
     py_seq (log_write ''\<newline>Applying combined corrections to data\<newline>'') (
     py_bind (rd asldata_mc_mats) (\<lambda>mc.
     py_seq (py_when (mc \<noteq> None) (log_write '' - Adding motion correction transforms\<newline>'')) (
     py_bind (rd fmap_warp) (\<lambda>fw.
     py_seq (py_when (fw \<noteq> None) (log_write '' - Adding fieldmap based warp to correction\<newline>'')) (
     py_bind (rd gdc_warp) (\<lambda>gw.
     py_seq (py_when (gw \<noteq> None) (log_write '' - Adding user-supplied GDC warp to correction\<newline>'')) (
     let warps = (if fw \<noteq> None then [fw] else []) @ (if gw \<noteq> None then [gw] else []) in
     py_seq (py_when (warps \<noteq> []) (
       py_seq (log_write '' - Converting all warps to single transform and extracting Jacobian\<newline>'') (
       py_bind (rd asldata_mean) (\<lambda>ref.
       py_bind (external (Convertwarp ref warps None) (fsl_convertwarp env ref warps None)) (\<lambda>_.
       py_return ()))))) (
     py_bind (rd asldata_mc_mats) (\<lambda>mc'.
     if warps = [] \<and> mc' = None then log_write '' - No corrections to apply\<newline>''
     else
       py_seq (log_write '' - Applying corrections to ASL data\<newline>'') (
       py_bind (rd asldata_orig) (\<lambda>orig.
       py_bind (rd asldata_mc_mats) (\<lambda>mats.
       py_bind (correct_img env orig mats) (\<lambda>asldata_img.
       py_bind (rd asldata_orig) (\<lambda>orig'.
       py_bind (attr_of orig' ''derived'' (derived env)) (\<lambda>derive.
       py_seq (wr (asldata_update (\<lambda>_. Some (derive (data asldata_img))))) (
       apply_to_calib env))))))))))))))))"

section \<open>Reading a parameter table\<close>

text \<open>
  The table handed to the field estimator is text: one row per line, fields separated by
  blanks, each field a decimal number.  These functions read it back.
\<close>

fun split_on :: "char \<Rightarrow> string \<Rightarrow> string list" where
  "split_on c [] = [[]]"
| "split_on c (x # xs) =
     (if x = c then [] # split_on c xs
      else (case split_on c xs of [] \<Rightarrow> [[x]] | h # t \<Rightarrow> (x # h) # t))"

definition table_rows :: "string \<Rightarrow> string list list" where
  "table_rows s = map (\<lambda>line. filter (\<lambda>field. field \<noteq> []) (split_on CHR '' '' line))
                      (split_on CHR ''\<newline>'' s)"

definition digit_of :: "char \<Rightarrow> nat option" where
  "digit_of c = map_of (zip ''0123456789'' [0, 1, 2, 3, 4, 5, 6, 7, 8, 9]) c"

fun read_digits :: "nat \<Rightarrow> string \<Rightarrow> nat option" where
  "read_digits acc [] = Some acc"
| "read_digits acc (c # cs) =
     (case digit_of c of None \<Rightarrow> None | Some d \<Rightarrow> read_digits (10 * acc + d) cs)"

definition read_decimal :: "string \<Rightarrow> real option" where
  "read_decimal s =
     (let negative = (s \<noteq> [] \<and> hd s = CHR ''-'');
          body = (if negative then tl s else s);
          int_part = takeWhile (\<lambda>c. c \<noteq> CHR ''.'') body;
          frac_part = drop 1 (dropWhile (\<lambda>c. c \<noteq> CHR ''.'') body)
      in if int_part = [] then None
         else (case (read_digits 0 int_part, read_digits 0 frac_part) of
                 (Some a, Some b) \<Rightarrow>
                   Some ((if negative then - 1 else 1) * (real a + real b / 10 ^ length frac_part))
               | _ \<Rightarrow> None))"

section \<open>Concrete workspaces and tools\<close>

text \<open>A workspace in which nothing has been set and no stage has run.\<close>

definition empty_wsp :: workspace where
  "empty_wsp =
     \<lparr>done_stages = {}, log_lines = [], report = [], calls = [], reg = None, structural = None,
      pedir = None, echospacing = None, inweight = None, nofmapreg = None, flirtsch = None,
      dof = None, senscorr_off = None, senscorr_auto = None, calib = None, cblip = None,
      cref = None, calib_blipped = None, cblip_warp = None, calib_orig = None, cref_orig = None,
      cblip_orig = None, cref_cblip = None, asldata = None, asldata_orig = None,
      asldata_mean = None, asldata_mc_mats = None, asl2calib = None, calib2asl = None,
      fmap = None, fmapmag = None, fmapmagbrain = None, fmap_warp = None,
      fmap_warp_struc = None, fmap_asl2struc = None, fmap_struc2asl = None, gdc_warp = None,
      total_warp = None, jacobian = None, pwi = None, struc = None, struc_brain = None,
      wm_seg_struc = None, asl2struc_attr = None, struc2asl_attr = None, regfrom = None,
      sensitivity = None, isen = None, bias = None\<rparr>"

text \<open>An image of \<open>n\<close> volumes of one voxel each.\<close>

definition sample_image :: "string \<Rightarrow> nat \<Rightarrow> image" where
  "sample_image nm n =
     \<lparr>name = nm, data = \<lparr>shape = [1, 1, 1, n], voxels = replicate n 1\<rparr>, header = nm @ ''.hdr'',
      iaf = ''tc''\<rparr>"

text \<open>The rigid transformation that shifts by \<open>a\<close> along x.\<close>

definition shift_x :: "real \<Rightarrow> matrix" where
  "shift_x a = [[1, 0, 0, a], [0, 1, 0, 0], [0, 0, 1, 0], [0, 0, 0, 1]]"

text \<open>
  Stand-ins for the external tools.  The motion estimator reports three volumes shifted by
  1, 2 and 3; the matrix inverse is given for the one matrix that is inverted; the
  resamplers name their output after their input and fail without an input image.
\<close>

definition stub_inv :: "matrix option \<Rightarrow> error + matrix" where
  "stub_inv m = (if m = Some (shift_x 2) then Inr (shift_x (- 2)) else Inl LinAlgError)"

definition stub_resample :: "image option \<Rightarrow> error + image" where
  "stub_resample img =
     (case img of
        None \<Rightarrow> Inl (ToolError ''no input image'')
      | Some i \<Rightarrow> Inr (i\<lparr>name := name i @ ''_corrected''\<rparr>))"

definition stub_env :: env where
  "stub_env =
     \<lparr>np_stack = (\<lambda>a b. Inr \<lparr>shape = shape a @ [2], voxels = voxels a @ voxels b\<rparr>),
      np_divide = (\<lambda>a b. Inr \<lparr>shape = shape a, voxels = map2 (/) (voxels a) (voxels b)\<rparr>),
      np_reciprocal = (\<lambda>a. Inr \<lparr>shape = shape a, voxels = map inverse (voxels a)\<rparr>),
      np_multiply = (\<lambda>a j. Inr \<lparr>shape = shape a, voxels = map2 (*) (voxels a) (voxels (data j))\<rparr>),
      linalg_inv = stub_inv,
      str_matrix = (\<lambda>m. ''matrix''),
      Image_new = (\<lambda>d h. \<lparr>name = ''array'', data = d, header = ifnone h [], iaf = []\<rparr>),
      asl_mean = (\<lambda>i. i\<lparr>name := name i @ ''_mean''\<rparr>),
      derived = (\<lambda>i d. i\<lparr>data := d\<rparr>),
      fsldir = Some ''/usr/local/fsl'',
      fsl_topup = (\<lambda>i p. case i of None \<Rightarrow> Inl (ToolError ''no input image'')
                           | Some x \<Rightarrow> Inr (x\<lparr>name := ''topup_fout''\<rparr>)),
      fsl_mcflirt = (\<lambda>i r. Inr [''out.mat/MAT_0000'' \<mapsto> shift_x 1,
                                ''out.mat/MAT_0001'' \<mapsto> shift_x 2,
                                ''out.mat/MAT_0002'' \<mapsto> shift_x 3]),
      fsl_convertwarp = (\<lambda>r ws p. Inr (sample_image ''warp'' 3)),
      fsl_applywarp = (\<lambda>i r w p interp pad. stub_resample i),
      fsl_applyxfm = (\<lambda>i r m interp pad. stub_resample i),
      fsl_flirt = (\<lambda>i r opts. case i of None \<Rightarrow> Inl (ToolError ''no input image'')
                              | Some x \<Rightarrow> Inr (x, shift_x 2)),
      epi_reg = (\<lambda>args. Inr \<lparr>out_warp = Some (sample_image ''warp'' 3),
                               out_mat = Some (shift_x 2), out_img = er_epi args\<rparr>),
      struc_init = (\<lambda>w. Inr (if structural w = None
                               then w\<lparr>structural := Some \<lparr>s_struc = struc w,
                                         s_brain = struc_brain w, s_wm_seg = None\<rparr>\<rparr>
                               else w)),
      struc_segment = (\<lambda>w. Inr w),
      brain_brain = (\<lambda>i t. stub_resample i)\<rparr>"

text \<open>A workspace ready for the phase-reversed calibration stage.\<close>

definition cblip_wsp :: workspace where
  "cblip_wsp =
     empty_wsp\<lparr>calib := Some (sample_image ''calib'' 1), cblip := Some (sample_image ''cblip'' 1),
               pedir := Some ''-y'', echospacing := Some (5 / 1000)\<rparr>"

text \<open>A workspace with a three-volume ASL series and a calibration image.\<close>

definition moco_wsp :: workspace where
  "moco_wsp =
     empty_wsp\<lparr>asldata := Some (sample_image ''asldata'' 3), calib := Some (sample_image ''calib'' 1)\<rparr>"

text \<open>
  A workspace with motion matrices, a calibration image and its phase-reversed twin, as
  it is before the corrections are applied.
\<close>

definition corr_wsp :: workspace where
  "corr_wsp =
     empty_wsp\<lparr>asldata_orig := Some (sample_image ''asldata'' 3),
               asldata_mean := Some (sample_image ''asldata_mean'' 1),
               asldata_mc_mats := Some (shift_x 1 @ identity4 @ shift_x 1),
               calib2asl := Some (shift_x (- 2)),
               calib_orig := Some (sample_image ''calib'' 1),
               cblip_orig := Some (sample_image ''cblip'' 1)\<rparr>"

text \<open>A workspace whose only sensitivity source is a user-supplied image.\<close>

definition isen_wsp :: workspace where
  "isen_wsp = empty_wsp\<lparr>isen := Some (sample_image ''isen'' 1)\<rparr>"

text \<open>A workspace with all fieldmap inputs, in which the fieldmap stage is marked done.\<close>

definition fmap_done_wsp :: workspace where
  "fmap_done_wsp =
     empty_wsp\<lparr>done_stages := {''get_fieldmap_correction''},
               fmap := Some (sample_image ''fmap'' 1), fmapmag := Some (sample_image ''fmapmag'' 1),
               fmapmagbrain := Some (sample_image ''fmapmagbrain'' 1),
               pedir := Some ''y'', echospacing := Some (5 / 1000)\<rparr>"

text \<open>The image arguments of the resampler (\<^verbatim>\<open>applywarp\<close>) calls, in order.\<close>

fun applywarp_inputs :: "call list \<Rightarrow> image option list" where
  "applywarp_inputs [] = []"
| "applywarp_inputs (Applywarp i r w p s n # cs) = i # applywarp_inputs cs"
| "applywarp_inputs (c # cs) = applywarp_inputs cs"

text \<open>A computation that, whenever it returns, has the stage marked done.\<close>

definition marks_done :: "string \<Rightarrow> 'a py \<Rightarrow> bool" where
  "marks_done s m = (\<forall>w r w'. m w = (Inr r, w') \<longrightarrow> s \<in> done_stages w')"

text \<open>A workspace with a calibration image and a calibration reference image.\<close>

definition sens_wsp :: workspace where
  "sens_wsp =
     empty_wsp\<lparr>calib := Some (sample_image ''calib'' 1), cref := Some (sample_image ''cref'' 1)\<rparr>"

section \<open>Evaluation and control-flow lemmas\<close>

lemmas py_defs = py_return_def py_raise_def py_bind_def py_seq_def py_when_def rd_def wr_def
  attr_of_def lift_def external_def module_call_def log_write_def isdone_def mark_done_def
  set_reg_def rd_reg_def rd_structural_def result_item_def

lemmas fixture_defs = empty_wsp_def sample_image_def stub_env_def stub_inv_def stub_resample_def
  shift_x_def identity4_def ifnone_def

lemma replicate_numeral_unfold: "replicate (numeral v) x = x # replicate (numeral v - 1) x"
  by (simp add: numeral_eq_Suc)

lemma str_nat_digit: "n < 10 \<Longrightarrow> str_nat n = [digit_char n]"
  by (simp add: str_nat.simps)

lemma str_nat_more: "\<not> n < 10 \<Longrightarrow> str_nat n = str_nat (n div 10) @ [digit_char (n mod 10)]"
  by (subst str_nat.simps) simp

lemmas fmt_eval = replicate_numeral_unfold str_nat_digit str_nat_more digit_char_def zero_pad_def
  fmt_04i_def fmt_i_def

lemma fmt_f_0005: "fmt_f (5 / 1000) = ''0.005000''"
  unfolding fmt_f_def by (simp add: round_half_even_def fmt_eval)

lemma datain_minus_y:
  "topup_datain (Some ''-y'') (Some (5 / 1000)) = Inr '' 0 -1  0 0.005000\<newline> 0  1  0 0.005000''"
  using fmt_f_0005 by (simp add: topup_datain_def topup_params_def py_getitem_def)

lemma rows_minus_y:
  "table_rows '' 0 -1  0 0.005000\<newline> 0  1  0 0.005000'' =
     [[''0'', ''-1'', ''0'', ''0.005000''], [''0'', ''1'', ''0'', ''0.005000'']]"
  by (simp add: table_rows_def)

lemma numbers_minus_y:
  "map (map read_decimal) [[''0'', ''-1'', ''0'', ''0.005000''], [''0'', ''1'', ''0'', ''0.005000'']] =
     [[Some 0, Some (- 1), Some 0, Some (5 / 1000)], [Some 0, Some 1, Some 0, Some (5 / 1000)]]"
  by (simp add: read_decimal_def digit_of_def)

lemma dom_topup_params: "dom topup_params = {''x'', ''-x'', ''y'', ''-y'', ''z'', ''-z''}"
  by (auto simp: topup_params_def)

lemma cblip_run:
  "get_cblip_correction stub_env cblip_wsp =
     (Inr (),
      cblip_wsp\<lparr>log_lines := [''Distortion Correction using TOPUP\<newline>''],
                calib_blipped :=
                  Some \<lparr>name = ''array'', data = \<lparr>shape = [1, 1, 1, 1, 2], voxels = [1, 1]\<rparr>,
                        header = ''calib.hdr'', iaf = []\<rparr>,
                calls :=
                  [Topup (Some \<lparr>name = ''array'', data = \<lparr>shape = [1, 1, 1, 1, 2], voxels = [1, 1]\<rparr>,
                                header = ''calib.hdr'', iaf = []\<rparr>)
                     '' 0 -1  0 0.005000\<newline> 0  1  0 0.005000''],
                done_stages := {''get_cblip_correction''}\<rparr>)"
  using datain_minus_y
  by (simp add: get_cblip_correction_def py_defs cblip_wsp_def fixture_defs)

subsection \<open>Stages guarded by the done flag\<close>

lemma marks_done_mark: "marks_done s (mark_done s)"
  by (simp add: marks_done_def mark_done_def wr_def)

lemma marks_done_seq: "marks_done s k \<Longrightarrow> marks_done s (py_seq m k)"
  by (auto simp: marks_done_def py_seq_def py_bind_def split: prod.splits sum.splits)

lemma marks_done_bind: "(\<And>x. marks_done s (f x)) \<Longrightarrow> marks_done s (py_bind m f)"
  by (auto simp: marks_done_def py_bind_def split: prod.splits sum.splits)

lemma marks_done_prod:
  "(\<And>a b. marks_done s (f a b)) \<Longrightarrow> marks_done s (case x of (a, b) \<Rightarrow> f a b)"
  by (cases x) simp

lemma marks_done_guard:
  "marks_done s body \<Longrightarrow>
   marks_done s (py_bind (isdone s) (\<lambda>already. if already then py_return () else body))"
  by (auto simp: marks_done_def py_bind_def isdone_def rd_def py_return_def)

lemma marks_doneD: "marks_done s m \<Longrightarrow> fst (m w) = Inr r \<Longrightarrow> s \<in> done_stages (snd (m w))"
  by (cases "m w") (auto simp: marks_done_def)

lemma memo_guard:
  "s \<in> done_stages w \<Longrightarrow>
   py_bind (isdone s) (\<lambda>already. if already then py_return () else body) w = (Inr (), w)"
  by (simp add: py_bind_def isdone_def rd_def py_return_def)

lemma cblip_marks: "marks_done ''get_cblip_correction'' (get_cblip_correction env)"
  unfolding get_cblip_correction_def
  by (intro marks_done_guard marks_done_seq marks_done_bind marks_done_mark)

lemma fieldmap_marks: "marks_done ''get_fieldmap_correction'' (get_fieldmap_correction env)"
  unfolding get_fieldmap_correction_def
  by (intro marks_done_guard marks_done_seq marks_done_bind marks_done_mark)

lemma motion_marks: "marks_done ''get_motion_correction'' (get_motion_correction env)"
  unfolding get_motion_correction_def
  by (intro marks_done_guard marks_done_seq marks_done_bind marks_done_prod marks_done_mark)

lemma cblip_memo:
  "''get_cblip_correction'' \<in> done_stages w \<Longrightarrow> get_cblip_correction env w = (Inr (), w)"
  unfolding get_cblip_correction_def by (rule memo_guard)

lemma fieldmap_memo:
  "''get_fieldmap_correction'' \<in> done_stages w \<Longrightarrow> get_fieldmap_correction env w = (Inr (), w)"
  unfolding get_fieldmap_correction_def by (rule memo_guard)

lemma motion_memo:
  "''get_motion_correction'' \<in> done_stages w \<Longrightarrow> get_motion_correction env w = (Inr (), w)"
  unfolding get_motion_correction_def by (rule memo_guard)

lemma sensitivity_memo:
  "sensitivity w \<noteq> None \<Longrightarrow> get_sensitivity_correction env w = (Inr (), w)"
  by (cases "sensitivity w") (simp_all add: get_sensitivity_correction_def py_defs)

lemma fieldmap_skip:
  assumes "fmap w = None \<or> fmapmag w = None \<or> fmapmagbrain w = None \<or> pedir w = None
             \<or> echospacing w = None"
  shows "\<exists>w'. get_fieldmap_correction env w = (Inr (), w')
           \<and> fmap_warp w' = fmap_warp w \<and> calls w' = calls w
           \<and> w' = w\<lparr>log_lines := log_lines w', done_stages := done_stages w'\<rparr>"
  using assms by (auto simp: get_fieldmap_correction_def py_defs)

subsection \<open>The transform chain without a registration\<close>

lemma struc2asl_unregistered:
  assumes "\<And>r. reg w = Some r \<Longrightarrow> r_struc2asl r = None"
  shows "fst (struc2asl env img use_applywarp interp paddingsize w) =
           Inl (ValueError ''Transformation matrix not available - has registration been performed?'')
       \<and> calls (snd (struc2asl env img use_applywarp interp paddingsize w)) = calls w"
  using assms
  by (cases "reg w") (simp_all add: struc2asl_def transform_def init_def py_defs empty_reg_def)

lemma asl2struc_unregistered:
  assumes "\<And>r. reg w = Some r \<Longrightarrow> r_asl2struc r = None"
  shows "fst (asl2struc env img use_applywarp interp paddingsize w) =
           (if structural w = None then Inl (AttributeError ''struc'')
            else Inl (ValueError ''Transformation matrix not available - has registration been performed?''))
       \<and> calls (snd (asl2struc env img use_applywarp interp paddingsize w)) = calls w"
  using assms
  by (cases "reg w"; cases "structural w")
     (simp_all add: asl2struc_def transform_def init_def py_defs empty_reg_def)

subsection \<open>The sources of the sensitivity field\<close>

lemma sensitivity_disabled:
  assumes "sensitivity w = None" and "truthy (senscorr_off w)"
  shows "get_sensitivity_correction env w =
           (Inr (), w\<lparr>log_lines := log_lines w @ [''Sensitivity correction\<newline>'',
                         '' - Sensitivity correction disabled\<newline>'', ''\<newline>'']\<rparr>)"
  using assms by (simp add: get_sensitivity_correction_def py_defs)

lemma sensitivity_user_supplied:
  assumes "sensitivity w = None" and "\<not> truthy (senscorr_off w)" and "isen w \<noteq> None"
  shows "get_sensitivity_correction env w =
           (Inr (), w\<lparr>log_lines := log_lines w @ [''Sensitivity correction\<newline>'',
                         '' - Sensitivity image supplied by user\<newline>'', ''\<newline>'']\<rparr>)"
  using assms by (simp add: get_sensitivity_correction_def py_defs)

lemma sensitivity_ratio:
  assumes "sensitivity w = None" and "\<not> truthy (senscorr_off w)" and "isen w = None"
    and "calib w = Some c" and "cref w = Some r" and "np_divide env (data c) (data r) = Inr q"
  shows "get_sensitivity_correction env w =
           (Inr (), w\<lparr>log_lines := log_lines w @ [''Sensitivity correction\<newline>'',
                         '' - Sensitivity image calculated from calibration reference image\<newline>'',
                         ''\<newline>''],
                       sensitivity := Some (Image_new env q (Some (header c)))\<rparr>)"
  using assms
  by (simp add: get_sensitivity_correction_def sensitivity_from_calib_def py_defs)

lemma sensitivity_bias:
  assumes "sensitivity w = None" and "\<not> truthy (senscorr_off w)" and "isen w = None"
    and "calib w = None \<or> cref w = None" and "truthy (senscorr_auto w)" and "bias w \<noteq> None"
  shows "get_sensitivity_correction env w =
           py_seq (log_write ''Sensitivity correction\<newline>'')
             (py_seq (sensitivity_from_bias env) (log_write ''\<newline>'')) w"
  using assms by (auto simp: get_sensitivity_correction_def py_defs)

lemma sensitivity_no_source:
  assumes "sensitivity w = None" and "\<not> truthy (senscorr_off w)" and "isen w = None"
    and "calib w = None \<or> cref w = None" and "\<not> truthy (senscorr_auto w) \<or> bias w = None"
  shows "get_sensitivity_correction env w =
           (Inr (), w\<lparr>log_lines := log_lines w @ [''Sensitivity correction\<newline>'',
                         '' - No source of sensitivity correction was found\<newline>'', ''\<newline>'']\<rparr>)"
  using assms by (auto simp: get_sensitivity_correction_def py_defs)

subsection \<open>What the phase-reversed calibration stage writes\<close>

lemma cblip_warp_untouched:
  "cblip_warp (snd (get_cblip_correction env w)) = cblip_warp w"
  by (auto simp: get_cblip_correction_def py_defs split: sum.splits option.splits)

subsection \<open>The source image of the corrected phase-reversed calibration image\<close>

lemma correct_img_frame:
  assumes "correct_img env img mat w = (Inr out, w')"
  shows "calls w' = calls w @ [Applywarp img (asldata_mean w) (total_warp w) mat ''sinc'' (Some 1)]"
    and "w' = w\<lparr>calls := calls w', log_lines := log_lines w'\<rparr>"
  using assms by (auto simp: correct_img_def py_defs split: sum.splits option.splits)

lemma cblip_source:
  assumes "apply_to_calib env w = (Inr (), w')" and "calib_orig w \<noteq> None"
    and "cblip_orig w \<noteq> None"
  shows "last (calls w') =
           Applywarp (cref_cblip w) (asldata_mean w) (total_warp w) (calib2asl w) ''sinc'' (Some 1)"
  using assms
  by (auto simp: apply_to_calib_def correct_img_def py_defs
           split: sum.splits option.splits prod.splits if_splits)

section \<open>Claims\<close>

text \<open>
  C3.  In every workspace in which \<^verbatim>\<open>asldata_mc_mats\<close> is absent and neither the fieldmap
  warp nor the gradient-distortion warp is set, \<^verbatim>\<open>apply_corrections\<close> returns normally,
  calls no external tool (in particular no resampler) and writes nothing but two log lines:
  the nodes \<^verbatim>\<open>asldata\<close>, \<^verbatim>\<open>calib\<close>, \<^verbatim>\<open>cref\<close> and \<^verbatim>\<open>cblip\<close> are left exactly as they
  were.
\<close>

theorem apply_corrections_noop:
  assumes "asldata_mc_mats w = None" and "fmap_warp w = None" and "gdc_warp w = None"
  shows "apply_corrections env w =
           (Inr (), w\<lparr>log_lines := log_lines w @
                         [''\<newline>Applying combined corrections to data\<newline>'',
                          '' - No corrections to apply\<newline>'']\<rparr>)
       \<and> calls (snd (apply_corrections env w)) = calls w
       \<and> asldata (snd (apply_corrections env w)) = asldata w
       \<and> calib (snd (apply_corrections env w)) = calib w
       \<and> cref (snd (apply_corrections env w)) = cref w
       \<and> cblip (snd (apply_corrections env w)) = cblip w"
  using assms by (simp add: apply_corrections_def py_defs)

theorem apply_corrections_noop_witness:
  "asldata_mc_mats empty_wsp = None \<and> fmap_warp empty_wsp = None \<and> gdc_warp empty_wsp = None
   \<and> fst (apply_corrections stub_env empty_wsp) = Inr ()
   \<and> calls (snd (apply_corrections stub_env empty_wsp)) = []
   \<and> asldata (snd (apply_corrections stub_env empty_wsp)) = None
   \<and> calib (snd (apply_corrections stub_env empty_wsp)) = None
   \<and> cref (snd (apply_corrections stub_env empty_wsp)) = None
   \<and> cblip (snd (apply_corrections stub_env empty_wsp)) = None"
  using apply_corrections_noop [of empty_wsp stub_env] by (simp add: empty_wsp_def)

text \<open>
  C5.  In every workspace in which one of the fieldmap inputs (fieldmap image, whole-head
  magnitude, brain-extracted magnitude, phase-encode direction, echo spacing) is absent,
  \<^verbatim>\<open>get_fieldmap_correction\<close> returns without raising, calls no external tool and leaves
  \<^verbatim>\<open>fmap_warp\<close> as it was; the workspace changes in its log and its done flags only.
\<close>

theorem fieldmap_skipped_without_inputs:
  assumes "fmap w = None \<or> fmapmag w = None \<or> fmapmagbrain w = None \<or> pedir w = None
             \<or> echospacing w = None"
  shows "fst (get_fieldmap_correction env w) = Inr ()
       \<and> fmap_warp (snd (get_fieldmap_correction env w)) = fmap_warp w
       \<and> calls (snd (get_fieldmap_correction env w)) = calls w
       \<and> snd (get_fieldmap_correction env w) =
           w\<lparr>log_lines := log_lines (snd (get_fieldmap_correction env w)),
              done_stages := done_stages (snd (get_fieldmap_correction env w))\<rparr>"
  using fieldmap_skip [OF assms, of env] by auto

theorem fieldmap_skipped_without_inputs_witness:
  "fmap empty_wsp = None
   \<and> get_fieldmap_correction stub_env empty_wsp =
       (Inr (), empty_wsp\<lparr>log_lines := [''\<newline>No fieldmap images for distortion correction\<newline>''],
                          done_stages := {''get_fieldmap_correction''}\<rparr>)
   \<and> fmap_warp (snd (get_fieldmap_correction stub_env empty_wsp)) = None
   \<and> calls (snd (get_fieldmap_correction stub_env empty_wsp)) = []"
proof -
  have h: "fmap empty_wsp = None \<or> fmapmag empty_wsp = None \<or> fmapmagbrain empty_wsp = None
             \<or> pedir empty_wsp = None \<or> echospacing empty_wsp = None"
    by (simp add: empty_wsp_def)
  have run: "get_fieldmap_correction stub_env empty_wsp =
       (Inr (), empty_wsp\<lparr>log_lines := [''\<newline>No fieldmap images for distortion correction\<newline>''],
                          done_stages := {''get_fieldmap_correction''}\<rparr>)"
    by (simp add: get_fieldmap_correction_def py_defs empty_wsp_def)
  from fieldmap_skipped_without_inputs [OF h, of stub_env] run show ?thesis
    by (simp add: empty_wsp_def)
qed

text \<open>
  C7.  For phase-encode direction \<^verbatim>\<open>-y\<close> and echo spacing 0.005 the parameter table built
  by \<^verbatim>\<open>get_cblip_correction\<close> is the text of two rows; read as numbers the rows are
  \<^verbatim>\<open>0 -1 0 0.005\<close> and \<^verbatim>\<open>0 1 0 0.005\<close> (\<^verbatim>\<open>%f\<close> prints 0.005 as \<^verbatim>\<open>0.005000\<close>).
  This table is what the stage hands to the field estimator, and the table of sign
  conventions has exactly the six keys x, -x, y, -y, z, -z.
\<close>

theorem topup_table_minus_y:
  "topup_datain (Some ''-y'') (Some (5 / 1000)) = Inr '' 0 -1  0 0.005000\<newline> 0  1  0 0.005000''
   \<and> table_rows '' 0 -1  0 0.005000\<newline> 0  1  0 0.005000'' =
       [[''0'', ''-1'', ''0'', ''0.005000''], [''0'', ''1'', ''0'', ''0.005000'']]
   \<and> map (map read_decimal) (table_rows '' 0 -1  0 0.005000\<newline> 0  1  0 0.005000'') =
       [[Some 0, Some (- 1), Some 0, Some (5 / 1000)], [Some 0, Some 1, Some 0, Some (5 / 1000)]]
   \<and> pedir cblip_wsp = Some ''-y'' \<and> echospacing cblip_wsp = Some (5 / 1000)
   \<and> calls (snd (get_cblip_correction stub_env cblip_wsp)) =
       [Topup (calib_blipped (snd (get_cblip_correction stub_env cblip_wsp)))
          '' 0 -1  0 0.005000\<newline> 0  1  0 0.005000'']
   \<and> dom topup_params = {''x'', ''-x'', ''y'', ''-y'', ''z'', ''-z''}"
  using datain_minus_y rows_minus_y numbers_minus_y dom_topup_params cblip_run
  by (simp add: cblip_wsp_def empty_wsp_def)

text \<open>
  C10.  \<^verbatim>\<open>get_fieldmap_correction\<close> marks its stage done on every call that gets past the
  done check and returns, also when it only skips because an input is missing.  So after a
  first call with a missing input the stage is done, and every later call on a workspace
  in which that flag is still set returns at once and leaves the workspace, and with it
  \<^verbatim>\<open>fmap_warp\<close>, untouched, whatever inputs have been supplied in between.
\<close>

theorem fieldmap_done_after_skip:
  assumes "fmap w = None \<or> fmapmag w = None \<or> fmapmagbrain w = None \<or> pedir w = None
             \<or> echospacing w = None"
    and "done_stages (snd (get_fieldmap_correction env w)) \<subseteq> done_stages later"
  shows "fst (get_fieldmap_correction env w) = Inr ()
       \<and> ''get_fieldmap_correction'' \<in> done_stages (snd (get_fieldmap_correction env w))
       \<and> get_fieldmap_correction env' later = (Inr (), later)
       \<and> (fst (get_fieldmap_correction env v) = Inr () \<longrightarrow>
            ''get_fieldmap_correction'' \<in> done_stages (snd (get_fieldmap_correction env v)))"
proof -
  from fieldmap_skip [OF assms(1), of env]
  have ok: "fst (get_fieldmap_correction env w) = Inr ()" by auto
  then have d: "''get_fieldmap_correction'' \<in> done_stages (snd (get_fieldmap_correction env w))"
    by (rule marks_doneD [OF fieldmap_marks])
  with assms(2) have "''get_fieldmap_correction'' \<in> done_stages later" by blast
  then have "get_fieldmap_correction env' later = (Inr (), later)" by (rule fieldmap_memo)
  with ok d show ?thesis by (auto intro: marks_doneD [OF fieldmap_marks])
qed

theorem fieldmap_done_after_skip_witness:
  "fmap empty_wsp = None
   \<and> done_stages (snd (get_fieldmap_correction stub_env empty_wsp)) \<subseteq> done_stages fmap_done_wsp
   \<and> fmap fmap_done_wsp \<noteq> None \<and> fmapmag fmap_done_wsp \<noteq> None
   \<and> fmapmagbrain fmap_done_wsp \<noteq> None \<and> pedir fmap_done_wsp \<noteq> None
   \<and> echospacing fmap_done_wsp \<noteq> None
   \<and> get_fieldmap_correction stub_env fmap_done_wsp = (Inr (), fmap_done_wsp)
   \<and> fmap_warp fmap_done_wsp = None
   \<and> ''get_fieldmap_correction'' \<in> done_stages (snd (get_fieldmap_correction stub_env empty_wsp))"
proof -
  have h: "fmap empty_wsp = None \<or> fmapmag empty_wsp = None \<or> fmapmagbrain empty_wsp = None
             \<or> pedir empty_wsp = None \<or> echospacing empty_wsp = None"
    by (simp add: empty_wsp_def)
  have run: "get_fieldmap_correction stub_env empty_wsp =
       (Inr (), empty_wsp\<lparr>log_lines := [''\<newline>No fieldmap images for distortion correction\<newline>''],
                          done_stages := {''get_fieldmap_correction''}\<rparr>)"
    by (simp add: get_fieldmap_correction_def py_defs empty_wsp_def)
  then have sub: "done_stages (snd (get_fieldmap_correction stub_env empty_wsp))
                    \<subseteq> done_stages fmap_done_wsp"
    by (simp add: fmap_done_wsp_def empty_wsp_def)
  from fieldmap_done_after_skip [OF h sub, of stub_env empty_wsp] sub show ?thesis
    by (simp add: fmap_done_wsp_def empty_wsp_def)
qed

text \<open>
  C4.  With \<^verbatim>\<open>calib\<close>, \<^verbatim>\<open>cblip\<close>, \<^verbatim>\<open>pedir\<close> and \<^verbatim>\<open>echospacing\<close> supplied,
  \<^verbatim>\<open>get_cblip_correction\<close> calls the field estimator on the stacked pair and marks the
  stage done, but the field that the estimator returns is dropped: the only node written
  is \<^verbatim>\<open>calib_blipped\<close>, and \<^verbatim>\<open>cblip_warp\<close>, which the docstring lists as the updated
  attribute, is still unset afterwards.  In no workspace and with no tools does the stage
  change \<^verbatim>\<open>cblip_warp\<close>.
\<close>

theorem cblip_field_not_stored:
  "get_cblip_correction stub_env cblip_wsp =
     (Inr (),
      cblip_wsp\<lparr>log_lines := [''Distortion Correction using TOPUP\<newline>''],
                calib_blipped :=
                  Some \<lparr>name = ''array'', data = \<lparr>shape = [1, 1, 1, 1, 2], voxels = [1, 1]\<rparr>,
                        header = ''calib.hdr'', iaf = []\<rparr>,
                calls :=
                  [Topup (Some \<lparr>name = ''array'', data = \<lparr>shape = [1, 1, 1, 1, 2], voxels = [1, 1]\<rparr>,
                                header = ''calib.hdr'', iaf = []\<rparr>)
                     '' 0 -1  0 0.005000\<newline> 0  1  0 0.005000''],
                done_stages := {''get_cblip_correction''}\<rparr>)
   \<and> fsl_topup stub_env (calib_blipped (snd (get_cblip_correction stub_env cblip_wsp)))
         '' 0 -1  0 0.005000\<newline> 0  1  0 0.005000''
       = Inr \<lparr>name = ''topup_fout'', data = \<lparr>shape = [1, 1, 1, 1, 2], voxels = [1, 1]\<rparr>,
              header = ''calib.hdr'', iaf = []\<rparr>
   \<and> cblip_warp (snd (get_cblip_correction stub_env cblip_wsp)) = None
   \<and> cblip_warp (snd (get_cblip_correction env w)) = cblip_warp w"
  using cblip_run cblip_warp_untouched [of env w] by (simp add: cblip_wsp_def fixture_defs)

text \<open>
  C6.  With sensitivity correction not disabled and a user-supplied sensitivity image in
  \<^verbatim>\<open>isen\<close>, \<^verbatim>\<open>get_sensitivity_correction\<close> takes the user-supplied branch but only writes
  to the log: the \<^verbatim>\<open>sensitivity\<close> node is not set to that image and stays unset.
\<close>

theorem user_sensitivity_not_stored:
  "isen isen_wsp = Some (sample_image ''isen'' 1) \<and> \<not> truthy (senscorr_off isen_wsp)
   \<and> get_sensitivity_correction stub_env isen_wsp =
       (Inr (), isen_wsp\<lparr>log_lines := [''Sensitivity correction\<newline>'',
                                        '' - Sensitivity image supplied by user\<newline>'',
                                        ''\<newline>'']\<rparr>)
   \<and> sensitivity (snd (get_sensitivity_correction stub_env isen_wsp)) = None"
  by (simp add: get_sensitivity_correction_def py_defs isen_wsp_def empty_wsp_def truthy_def)

text \<open>
  C8.  With corrections active and both \<^verbatim>\<open>calib_orig\<close> and \<^verbatim>\<open>cblip_orig\<close> set,
  \<^verbatim>\<open>apply_corrections\<close> resamples the node \<^verbatim>\<open>cref_cblip\<close>, not \<^verbatim>\<open>cblip_orig\<close>, to
  produce \<^verbatim>\<open>cblip\<close>.  When \<^verbatim>\<open>cref_cblip\<close> is unset the resampler is called without an
  input image and \<^verbatim>\<open>cblip\<close> is never written; when it holds some other image, \<^verbatim>\<open>cblip\<close>
  becomes the resampling of that image.
\<close>

theorem cblip_resampled_from_wrong_node:
  "cblip_orig corr_wsp = Some (sample_image ''cblip'' 1) \<and> cref_cblip corr_wsp = None
   \<and> fst (apply_corrections stub_env corr_wsp) = Inl (ToolError ''no input image'')
   \<and> applywarp_inputs (calls (snd (apply_corrections stub_env corr_wsp))) =
       [Some (sample_image ''asldata'' 3), Some (sample_image ''calib'' 1), None]
   \<and> cblip (snd (apply_corrections stub_env corr_wsp)) = None
   \<and> fst (apply_corrections stub_env (corr_wsp\<lparr>cref_cblip := Some (sample_image ''other'' 1)\<rparr>))
       = Inr ()
   \<and> applywarp_inputs
        (calls (snd (apply_corrections stub_env (corr_wsp\<lparr>cref_cblip := Some (sample_image ''other'' 1)\<rparr>)))) =
       [Some (sample_image ''asldata'' 3), Some (sample_image ''calib'' 1),
        Some (sample_image ''other'' 1)]
   \<and> cblip (snd (apply_corrections stub_env (corr_wsp\<lparr>cref_cblip := Some (sample_image ''other'' 1)\<rparr>)))
       = Some ((sample_image ''other'' 1)\<lparr>name := ''other_corrected''\<rparr>)"
  by (simp add: apply_corrections_def apply_to_calib_def correct_img_def py_defs corr_wsp_def
        fixture_defs)

text \<open>
  C9.  \<^verbatim>\<open>struc2asl\<close> raises ValueError whenever the structural-to-ASL matrix has not been
  computed.  \<^verbatim>\<open>asl2struc\<close> does so only if the \<^verbatim>\<open>structural\<close> sub-workspace exists: it
  reads \<^verbatim>\<open>wsp.structural.struc\<close> before calling \<^verbatim>\<open>transform\<close>, and in a workspace on
  which no registration has run that read raises AttributeError.  In neither case is an
  external tool called.
\<close>

theorem asl2struc_attribute_error:
  "reg empty_wsp = None \<and> structural empty_wsp = None
   \<and> asl2struc stub_env (sample_image ''pwi'' 1) False ''trilinear'' 1 empty_wsp =
       (Inl (AttributeError ''struc''), empty_wsp\<lparr>reg := Some empty_reg\<rparr>)
   \<and> struc2asl stub_env (sample_image ''t1'' 1) False ''trilinear'' 1 empty_wsp =
       (Inl (ValueError ''Transformation matrix not available - has registration been performed?''),
        empty_wsp\<lparr>reg := Some empty_reg\<rparr>)"
  by (simp add: asl2struc_def struc2asl_def transform_def init_def py_defs empty_wsp_def
        empty_reg_def)

subsection \<open>Motion correction with a calibration reference\<close>

lemma map_raise_length: "map_raise f xs = Inr ys \<Longrightarrow> length ys = length xs"
  by (induction xs arbitrary: ys) (auto split: sum.splits)

lemma map_raise_nth:
  "map_raise f xs = Inr ys \<Longrightarrow> i < length xs \<Longrightarrow> f (xs ! i) = Inr (ys ! i)"
proof (induction xs arbitrary: ys i)
  case Nil
  then show ?case by simp
next
  case (Cons x xs)
  then show ?case by (cases i) (auto split: sum.splits)
qed

lemma mcflirt_mats_length: "mcflirt_mats result n = Inr mats \<Longrightarrow> length mats = n"
  by (auto simp: mcflirt_mats_def dest: map_raise_length)

lemma mcflirt_mats_nth:
  "mcflirt_mats result n = Inr mats \<Longrightarrow> i < n \<Longrightarrow>
   result (''out.mat/MAT_'' @ fmt_04i i) = Some (mats ! i)"
  unfolding mcflirt_mats_def
  by (drule map_raise_nth [where i = i]) (auto simp: py_getitem_def split: option.splits)

lemma np_concatenate_Inr: "np_concatenate ms = Inr m \<Longrightarrow> m = concat ms \<and> ms \<noteq> []"
  by (auto simp: np_concatenate_def split: if_splits)

lemma mc_calib_reference_result:
  assumes "mc_calib_reference env w = (Inr (mats', src), w1)"
  shows "\<exists>a result n mats inv.
           asldata w = Some a \<and> py_index (shape (data a)) 3 = Inr n
         \<and> fsl_mcflirt env (asldata w) (calib w) = Inr result
         \<and> mcflirt_mats result n = Inr mats
         \<and> middle n < n
         \<and> linalg_inv env (Some (mats ! middle n)) = Inr inv
         \<and> map_raise (\<lambda>m. np_dot m inv) mats = Inr mats'
         \<and> asl2calib w1 = Some (mats ! middle n) \<and> calib2asl w1 = Some inv"
proof -
  from assms obtain a result mats inv where
    f: "asldata w = Some a" "3 < length (shape (data a))"
       "fsl_mcflirt env (asldata w) (calib w) = Inr result"
       "mcflirt_mats result (shape (data a) ! 3) = Inr mats"
       "middle (length mats) < length mats"
       "linalg_inv env (Some (mats ! middle (length mats))) = Inr inv"
       "map_raise (\<lambda>m. np_dot m inv) mats = Inr mats'"
       "asl2calib w1 = Some (mats ! middle (length mats))" "calib2asl w1 = Some inv"
    by (auto simp: mc_calib_reference_def nvols_def py_defs py_index_def np_dot_arg_def Let_def
             split: sum.splits prod.splits option.splits if_splits)
  from f(4) have len: "length mats = shape (data a) ! 3"
    by (rule mcflirt_mats_length)
  from f(2) have idx: "py_index (shape (data a)) 3 = Inr (shape (data a) ! 3)"
    by (simp add: py_index_def)
  from f len idx show ?thesis by auto
qed

lemma motion_calib_result:
  assumes ok: "get_motion_correction env w = (Inr (), w')"
    and nd: "''get_motion_correction'' \<notin> done_stages w"
    and cal: "calib w \<noteq> None"
  obtains a result n mats inv mats' where
    "asldata w = Some a" "py_index (shape (data a)) 3 = Inr n"
    "fsl_mcflirt env (asldata w) (calib w) = Inr result"
    "mcflirt_mats result n = Inr mats" "middle n < n"
    "linalg_inv env (Some (mats ! middle n)) = Inr inv"
    "map_raise (\<lambda>m. np_dot m inv) mats = Inr mats'"
    "asl2calib w' = Some (mats ! middle n)" "calib2asl w' = Some inv"
    "asldata_mc_mats w' = Some (concat mats')"
proof -
  from ok nd cal obtain mats' src w1 where
    r: "mc_calib_reference env (w\<lparr>log_lines := log_lines w @ [''\<newline>Motion Correction\<newline>'']\<rparr>)
          = (Inr (mats', src), w1)"
    and fin: "asl2calib w' = asl2calib w1" "calib2asl w' = calib2asl w1"
             "asldata_mc_mats w' = Some (concat mats')"
    by (auto simp: get_motion_correction_def py_defs dest!: np_concatenate_Inr
             split: sum.splits prod.splits if_splits)
  from mc_calib_reference_result [OF r] obtain a result n mats inv where
    "asldata w = Some a" "py_index (shape (data a)) 3 = Inr n"
    "fsl_mcflirt env (asldata w) (calib w) = Inr result"
    "mcflirt_mats result n = Inr mats" "middle n < n"
    "linalg_inv env (Some (mats ! middle n)) = Inr inv"
    "map_raise (\<lambda>m. np_dot m inv) mats = Inr mats'"
    "asl2calib w1 = Some (mats ! middle n)" "calib2asl w1 = Some inv"
    by auto
  with fin show thesis by (intro that) simp_all
qed

lemma stub_inverse: "linalg_inv stub_env (Some a) = Inr b \<Longrightarrow> np_dot a b = Inr identity4"
  by (auto simp: stub_env_def stub_inv_def np_dot_def shift_x_def identity4_def split: if_splits)

lemma upt_0_3: "[0..<3] = [0, 1, 2]"
  by (simp add: upt_rec)

lemma stub_mats:
  "mcflirt_mats [''out.mat/MAT_0000'' \<mapsto> shift_x 1, ''out.mat/MAT_0001'' \<mapsto> shift_x 2,
                 ''out.mat/MAT_0002'' \<mapsto> shift_x 3] 3 = Inr [shift_x 1, shift_x 2, shift_x 3]"
  by (simp add: mcflirt_mats_def py_getitem_def fmt_eval upt_0_3)

lemma moco_run:
  "fst (get_motion_correction stub_env moco_wsp) = Inr ()
   \<and> asl2calib (snd (get_motion_correction stub_env moco_wsp)) = Some (shift_x 2)
   \<and> calib2asl (snd (get_motion_correction stub_env moco_wsp)) = Some (shift_x (- 2))
   \<and> asldata_mc_mats (snd (get_motion_correction stub_env moco_wsp)) =
       Some (shift_x (- 1) @ identity4 @ shift_x 1)
   \<and> calls (snd (get_motion_correction stub_env moco_wsp)) =
       [Mcflirt (Some (sample_image ''asldata'' 3)) (Some (sample_image ''calib'' 1))]"
  using stub_mats
  by (simp add: get_motion_correction_def mc_calib_reference_def nvols_def py_index_def
        middle_def py_defs moco_wsp_def empty_wsp_def stub_env_def stub_inv_def sample_image_def
        np_concatenate_def np_dot_arg_def np_dot_def shift_x_def identity4_def)

text \<open>
  C2.  When \<^verbatim>\<open>get_motion_correction\<close> runs with a calibration image on a series of
  \<open>n\<close> volumes and returns, \<^verbatim>\<open>asl2calib\<close> is the matrix the estimator gave for volume
  \<open>n div 2\<close>, \<^verbatim>\<open>calib2asl\<close> is its inverse, every per-volume matrix has been multiplied on
  the right by \<^verbatim>\<open>calib2asl\<close>, and \<^verbatim>\<open>asldata_mc_mats\<close> is the concatenation of the
  products.  Provided the inverse that numpy returns is a right inverse (exact arithmetic
  in place of floating point), the matrix of the middle volume is the identity.
\<close>

theorem motion_recentred:
  assumes ok: "get_motion_correction env w = (Inr (), w')"
    and nd: "''get_motion_correction'' \<notin> done_stages w"
    and cal: "calib w \<noteq> None"
    and inverse: "\<And>result k m b. fsl_mcflirt env (asldata w) (calib w) = Inr result \<Longrightarrow>
                    result k = Some m \<Longrightarrow> linalg_inv env (Some m) = Inr b \<Longrightarrow>
                    np_dot m b = Inr identity4"
  shows "\<exists>a result n mats inv mats'.
           asldata w = Some a \<and> py_index (shape (data a)) 3 = Inr n
         \<and> fsl_mcflirt env (asldata w) (calib w) = Inr result
         \<and> mcflirt_mats result n = Inr mats \<and> length mats = n
         \<and> result (''out.mat/MAT_'' @ fmt_04i (n div 2)) = Some (mats ! (n div 2))
         \<and> asl2calib w' = Some (mats ! (n div 2))
         \<and> linalg_inv env (asl2calib w') = Inr inv \<and> calib2asl w' = Some inv
         \<and> map_raise (\<lambda>m. np_dot m inv) mats = Inr mats' \<and> length mats' = n
         \<and> asldata_mc_mats w' = Some (concat mats')
         \<and> mats' ! (n div 2) = identity4"
proof -
  from ok nd cal obtain a result n mats inv mats' where
    f: "asldata w = Some a" "py_index (shape (data a)) 3 = Inr n"
       "fsl_mcflirt env (asldata w) (calib w) = Inr result"
       "mcflirt_mats result n = Inr mats" "middle n < n"
       "linalg_inv env (Some (mats ! middle n)) = Inr inv"
       "map_raise (\<lambda>m. np_dot m inv) mats = Inr mats'"
       "asl2calib w' = Some (mats ! middle n)" "calib2asl w' = Some inv"
       "asldata_mc_mats w' = Some (concat mats')"
    by (rule motion_calib_result)
  from f(4) have len: "length mats = n" by (rule mcflirt_mats_length)
  from f(7) have len': "length mats' = n" using len by (auto dest: map_raise_length)
  from f(4,5) have key: "result (''out.mat/MAT_'' @ fmt_04i (middle n)) = Some (mats ! middle n)"
    by (rule mcflirt_mats_nth)
  from f(7) f(5) len have "np_dot (mats ! middle n) inv = Inr (mats' ! middle n)"
    by (auto dest: map_raise_nth)
  moreover from inverse [OF f(3) key f(6)] have "np_dot (mats ! middle n) inv = Inr identity4" .
  ultimately have mid: "mats' ! middle n = identity4" by simp
  from f len len' key mid show ?thesis
    unfolding middle_def by (intro exI [of _ a] exI [of _ result] exI [of _ n] exI [of _ mats]
        exI [of _ inv] exI [of _ mats']) simp
qed

theorem motion_recentred_witness:
  "''get_motion_correction'' \<notin> done_stages moco_wsp \<and> calib moco_wsp \<noteq> None
   \<and> fst (get_motion_correction stub_env moco_wsp) = Inr ()
   \<and> (\<exists>mats mats'.
         mcflirt_mats [''out.mat/MAT_0000'' \<mapsto> shift_x 1, ''out.mat/MAT_0001'' \<mapsto> shift_x 2,
                       ''out.mat/MAT_0002'' \<mapsto> shift_x 3] 3 = Inr mats
       \<and> asl2calib (snd (get_motion_correction stub_env moco_wsp)) = Some (mats ! 1)
       \<and> asldata_mc_mats (snd (get_motion_correction stub_env moco_wsp)) = Some (concat mats')
       \<and> length mats' = 3 \<and> mats' ! 1 = identity4)
   \<and> asl2calib (snd (get_motion_correction stub_env moco_wsp)) = Some (shift_x 2)
   \<and> asldata_mc_mats (snd (get_motion_correction stub_env moco_wsp)) =
       Some (shift_x (- 1) @ identity4 @ shift_x 1)"
proof -
  have nd: "''get_motion_correction'' \<notin> done_stages moco_wsp"
    and cal: "calib moco_wsp \<noteq> None"
    by (simp_all add: moco_wsp_def empty_wsp_def)
  from moco_run have ok: "get_motion_correction stub_env moco_wsp =
      (Inr (), snd (get_motion_correction stub_env moco_wsp))"
    by (simp add: prod_eq_iff)
  have "\<exists>a result n mats inv mats'.
           asldata moco_wsp = Some a \<and> py_index (shape (data a)) 3 = Inr n
         \<and> fsl_mcflirt stub_env (asldata moco_wsp) (calib moco_wsp) = Inr result
         \<and> mcflirt_mats result n = Inr mats \<and> length mats = n
         \<and> result (''out.mat/MAT_'' @ fmt_04i (n div 2)) = Some (mats ! (n div 2))
         \<and> asl2calib (snd (get_motion_correction stub_env moco_wsp)) = Some (mats ! (n div 2))
         \<and> linalg_inv stub_env (asl2calib (snd (get_motion_correction stub_env moco_wsp))) = Inr inv
         \<and> calib2asl (snd (get_motion_correction stub_env moco_wsp)) = Some inv
         \<and> map_raise (\<lambda>m. np_dot m inv) mats = Inr mats' \<and> length mats' = n
         \<and> asldata_mc_mats (snd (get_motion_correction stub_env moco_wsp)) = Some (concat mats')
         \<and> mats' ! (n div 2) = identity4"
    by (rule motion_recentred [OF ok nd cal]) (rule stub_inverse)
  then obtain a result n mats inv mats' where
    g: "asldata moco_wsp = Some a" "py_index (shape (data a)) 3 = Inr n"
       "fsl_mcflirt stub_env (asldata moco_wsp) (calib moco_wsp) = Inr result"
       "mcflirt_mats result n = Inr mats"
       "asl2calib (snd (get_motion_correction stub_env moco_wsp)) = Some (mats ! (n div 2))"
       "asldata_mc_mats (snd (get_motion_correction stub_env moco_wsp)) = Some (concat mats')"
       "length mats' = n" "mats' ! (n div 2) = identity4"
    by blast
  from g(1,2) have n: "n = 3"
    by (auto simp: moco_wsp_def empty_wsp_def sample_image_def py_index_def)
  from g(3) have res: "result = [''out.mat/MAT_0000'' \<mapsto> shift_x 1,
      ''out.mat/MAT_0001'' \<mapsto> shift_x 2, ''out.mat/MAT_0002'' \<mapsto> shift_x 3]"
    by (simp add: stub_env_def)
  from g n res have "\<exists>mats mats'.
         mcflirt_mats [''out.mat/MAT_0000'' \<mapsto> shift_x 1, ''out.mat/MAT_0001'' \<mapsto> shift_x 2,
                       ''out.mat/MAT_0002'' \<mapsto> shift_x 3] 3 = Inr mats
       \<and> asl2calib (snd (get_motion_correction stub_env moco_wsp)) = Some (mats ! 1)
       \<and> asldata_mc_mats (snd (get_motion_correction stub_env moco_wsp)) = Some (concat mats')
       \<and> length mats' = 3 \<and> mats' ! 1 = identity4"
    by (intro exI [of _ mats] exI [of _ mats']) simp
  with nd cal moco_run show ?thesis by simp
qed

subsection \<open>Memoization of the stages\<close>

lemma sens_run:
  "get_sensitivity_correction stub_env sens_wsp =
     (Inr (),
      sens_wsp\<lparr>log_lines := [''Sensitivity correction\<newline>'',
                  '' - Sensitivity image calculated from calibration reference image\<newline>'',
                  ''\<newline>''],
               sensitivity := Some \<lparr>name = ''array'', data = \<lparr>shape = [1, 1, 1, 1], voxels = [1]\<rparr>,
                                    header = ''calib.hdr'', iaf = []\<rparr>\<rparr>)"
  by (simp add: get_sensitivity_correction_def sensitivity_from_calib_def py_defs sens_wsp_def
        truthy_def fixture_defs)

lemma fieldmap_run:
  "get_fieldmap_correction stub_env empty_wsp =
     (Inr (), empty_wsp\<lparr>log_lines := [''\<newline>No fieldmap images for distortion correction\<newline>''],
                        done_stages := {''get_fieldmap_correction''}\<rparr>)"
  by (simp add: get_fieldmap_correction_def py_defs empty_wsp_def)

text \<open>
  C1 (as amended).  \<^verbatim>\<open>get_cblip_correction\<close>, \<^verbatim>\<open>get_fieldmap_correction\<close> and
  \<^verbatim>\<open>get_motion_correction\<close> each begin by checking the done flag of their own stage: when
  it is set they return at once and leave the workspace, the log and the record of external
  calls exactly as they were.  When one of them runs and returns, its stage is marked done,
  so a second call on the workspace it produced changes nothing and calls no external tool.
  \<^verbatim>\<open>get_sensitivity_correction\<close> does not use the done flag; it is guarded by the
  \<^verbatim>\<open>sensitivity\<close> node instead and returns at once, without any effect, whenever that node
  is already set.
\<close>

theorem stage_memoization:
  "(''get_cblip_correction'' \<in> done_stages u_cblip \<longrightarrow> get_cblip_correction env u_cblip = (Inr (), u_cblip))
   \<and> (fst (get_cblip_correction env w_cblip) = Inr () \<longrightarrow>
        ''get_cblip_correction'' \<in> done_stages (snd (get_cblip_correction env w_cblip))
        \<and> get_cblip_correction env' (snd (get_cblip_correction env w_cblip)) =
            (Inr (), snd (get_cblip_correction env w_cblip)))
   \<and> (''get_fieldmap_correction'' \<in> done_stages u_fmap \<longrightarrow>
        get_fieldmap_correction env u_fmap = (Inr (), u_fmap))
   \<and> (fst (get_fieldmap_correction env w_fmap) = Inr () \<longrightarrow>
        ''get_fieldmap_correction'' \<in> done_stages (snd (get_fieldmap_correction env w_fmap))
        \<and> get_fieldmap_correction env' (snd (get_fieldmap_correction env w_fmap)) =
            (Inr (), snd (get_fieldmap_correction env w_fmap)))
   \<and> (''get_motion_correction'' \<in> done_stages u_moco \<longrightarrow>
        get_motion_correction env u_moco = (Inr (), u_moco))
   \<and> (fst (get_motion_correction env w_moco) = Inr () \<longrightarrow>
        ''get_motion_correction'' \<in> done_stages (snd (get_motion_correction env w_moco))
        \<and> get_motion_correction env' (snd (get_motion_correction env w_moco)) =
            (Inr (), snd (get_motion_correction env w_moco)))
   \<and> (sensitivity u_sens \<noteq> None \<longrightarrow> get_sensitivity_correction env u_sens = (Inr (), u_sens))"
  by (auto intro: cblip_memo fieldmap_memo motion_memo sensitivity_memo
        marks_doneD [OF cblip_marks] marks_doneD [OF fieldmap_marks] marks_doneD [OF motion_marks])

theorem stage_memoization_witness:
  "fst (get_cblip_correction stub_env cblip_wsp) = Inr ()
   \<and> ''get_cblip_correction'' \<in> done_stages (snd (get_cblip_correction stub_env cblip_wsp))
   \<and> get_cblip_correction stub_env (snd (get_cblip_correction stub_env cblip_wsp)) =
       (Inr (), snd (get_cblip_correction stub_env cblip_wsp))
   \<and> fst (get_fieldmap_correction stub_env empty_wsp) = Inr ()
   \<and> ''get_fieldmap_correction'' \<in> done_stages (snd (get_fieldmap_correction stub_env empty_wsp))
   \<and> get_fieldmap_correction stub_env (snd (get_fieldmap_correction stub_env empty_wsp)) =
       (Inr (), snd (get_fieldmap_correction stub_env empty_wsp))
   \<and> fst (get_motion_correction stub_env moco_wsp) = Inr ()
   \<and> ''get_motion_correction'' \<in> done_stages (snd (get_motion_correction stub_env moco_wsp))
   \<and> get_motion_correction stub_env (snd (get_motion_correction stub_env moco_wsp)) =
       (Inr (), snd (get_motion_correction stub_env moco_wsp))
   \<and> sensitivity (snd (get_sensitivity_correction stub_env sens_wsp)) \<noteq> None
   \<and> get_sensitivity_correction stub_env (snd (get_sensitivity_correction stub_env sens_wsp)) =
       (Inr (), snd (get_sensitivity_correction stub_env sens_wsp))"
proof -
  have c: "fst (get_cblip_correction stub_env cblip_wsp) = Inr ()"
    using cblip_run by simp
  have f: "fst (get_fieldmap_correction stub_env empty_wsp) = Inr ()"
    using fieldmap_run by simp
  have m: "fst (get_motion_correction stub_env moco_wsp) = Inr ()"
    using moco_run by simp
  have s: "sensitivity (snd (get_sensitivity_correction stub_env sens_wsp)) \<noteq> None"
    using sens_run by simp
  from stage_memoization
    [of "snd (get_cblip_correction stub_env cblip_wsp)" stub_env cblip_wsp stub_env
        "snd (get_fieldmap_correction stub_env empty_wsp)" empty_wsp
        "snd (get_motion_correction stub_env moco_wsp)" moco_wsp
        "snd (get_sensitivity_correction stub_env sens_wsp)"]
    c f m s
  show ?thesis by simp
qed

text \<open>
  C1 as stated fails for \<^verbatim>\<open>get_sensitivity_correction\<close>: with its stage name in the done
  flags it still computes and writes the \<^verbatim>\<open>sensitivity\<close> node; it never marks a stage
  done; and a second call after a first one that found a user-supplied image writes to the
  log again.
\<close>

theorem sensitivity_ignores_done_flag:
  "''get_sensitivity_correction'' \<in> done_stages (sens_wsp\<lparr>done_stages := {''get_sensitivity_correction''}\<rparr>)
   \<and> get_sensitivity_correction stub_env (sens_wsp\<lparr>done_stages := {''get_sensitivity_correction''}\<rparr>)
       \<noteq> (Inr (), sens_wsp\<lparr>done_stages := {''get_sensitivity_correction''}\<rparr>)
   \<and> sensitivity (sens_wsp\<lparr>done_stages := {''get_sensitivity_correction''}\<rparr>) = None
   \<and> sensitivity (snd (get_sensitivity_correction stub_env
                         (sens_wsp\<lparr>done_stages := {''get_sensitivity_correction''}\<rparr>))) \<noteq> None
   \<and> ''get_sensitivity_correction'' \<notin> done_stages (snd (get_sensitivity_correction stub_env isen_wsp))
   \<and> get_sensitivity_correction stub_env (snd (get_sensitivity_correction stub_env isen_wsp))
       \<noteq> (Inr (), snd (get_sensitivity_correction stub_env isen_wsp))"
  by (simp add: get_sensitivity_correction_def sensitivity_from_calib_def py_defs sens_wsp_def
        isen_wsp_def truthy_def fixture_defs)

end
